theory Spec2Isabelle
  imports Main "HOL-Library.Word"
begin

section \<open>SECC protocol engine of ISO 15118-2: data model\<close>

text \<open>
  The embedding follows \<^verbatim>\<open>iso15118/secc/states/iso15118_2_states.py\<close> and
  \<^verbatim>\<open>iso15118/secc/failed_responses.py\<close>. Python objects become records and
  datatypes, an optional attribute becomes an \<open>option\<close>, an exception becomes a value
  of \<open>py_error\<close>, and the mutable communication session is passed explicitly.
\<close>

type_synonym bytes = "8 word list"

datatype py_error =
    NotImplementedError string
  | AttributeError string
  | NameError string
  | TypeError string
  | EncryptionError
  | PrivateKeyReadError
  | CertSignatureError
  | CertNotYetValidError
  | CertExpiredError
  | CertRevokedError
  | CertAttributeError
  | CertChainLengthError

subsection \<open>Python built-ins used by the states\<close>

text \<open>\<^verbatim>\<open>bytes(n)\<close>: \<open>n\<close> zero bytes.\<close>

definition py_bytes :: "nat \<Rightarrow> bytes" where
  "py_bytes n = replicate n 0"

definition hexdigit :: "nat \<Rightarrow> char" where
  "hexdigit d = ''0123456789abcdef'' ! d"

text \<open>\<^verbatim>\<open>bytes.hex()\<close>: two lower-case hexadecimal digits per byte.\<close>

fun py_hex :: "bytes \<Rightarrow> string" where
  "py_hex [] = []"
| "py_hex (b # bs) = hexdigit (unat b div 16) # hexdigit (unat b mod 16) # py_hex bs"

text \<open>\<^verbatim>\<open>str.upper()\<close> on ASCII text.\<close>

definition upper_char :: "char \<Rightarrow> char" where
  "upper_char c =
     (let n = (of_char c :: nat) in if 97 \<le> n \<and> n \<le> 122 then char_of (n - 32) else c)"

definition py_upper :: "string \<Rightarrow> string" where
  "py_upper s = map upper_char s"

text \<open>\<^verbatim>\<open>str.startswith(prefix)\<close>.\<close>

definition startswith :: "string \<Rightarrow> string \<Rightarrow> bool" where
  "startswith s p = (take (length p) s = p)"

subsection \<open>Enumerations\<close>

text \<open>
  Modelled from the spec: the module \<^verbatim>\<open>iso15118_2/body.py\<close> that declares
  \<^verbatim>\<open>ResponseCode\<close> is not among the sources; the members are the response codes
  the states name and the spec lists.
\<close>

datatype ResponseCode =
    OK
  | OK_NEW_SESSION_ESTABLISHED
  | OK_OLD_SESSION_JOINED
  | OK_CERTIFICATE_EXPIRES_SOON
  | FAILED
  | FAILED_SEQUENCE_ERROR
  | FAILED_SERVICE_ID_INVALID
  | FAILED_UNKNOWN_SESSION
  | FAILED_SERVICE_SELECTION_INVALID
  | FAILED_PAYMENT_SELECTION_INVALID
  | FAILED_CERTIFICATE_EXPIRED
  | FAILED_SIGNATURE_ERROR
  | FAILED_NO_CERTIFICATE_AVAILABLE
  | FAILED_CERT_CHAIN_ERROR
  | FAILED_CHALLENGE_INVALID
  | FAILED_CONTRACT_CANCELED
  | FAILED_WRONG_CHARGE_PARAMETER
  | FAILED_POWER_DELIVERY_NOT_APPLIED
  | FAILED_TARIFF_SELECTION_INVALID
  | FAILED_CHARGING_PROFILE_INVALID
  | FAILED_METERING_SIGNATURE_NOT_VALID
  | FAILED_NO_CHARGE_SERVICE_SELECTED
  | FAILED_WRONG_ENERGY_TRANSFER_MODE
  | FAILED_CERTIFICATE_REVOKED

text \<open>
  Modelled from the spec: \<^verbatim>\<open>AuthEnum\<close> of \<^verbatim>\<open>enums.py\<close> (not among the
  sources). Its members have pairwise different values, so comparing the \<^verbatim>\<open>.value\<close>
  of two members is comparing the members, and \<^verbatim>\<open>AuthEnum(x.value)\<close> is \<open>x\<close>.
\<close>

datatype AuthEnum = EIM | PNC | EIM_V2 | PNC_V2

text \<open>
  Modelled from the spec: \<^verbatim>\<open>EnergyTransferModeEnum\<close> of \<^verbatim>\<open>enums.py\<close> (not
  among the sources), with the value strings of the ISO 15118-2 schema.
\<close>

datatype EnergyTransferModeEnum =
    AC_SINGLE_PHASE_CORE
  | AC_THREE_PHASE_CORE
  | DC_CORE
  | DC_EXTENDED
  | DC_COMBO_CORE
  | DC_UNIQUE

fun EnergyTransferModeEnum_value :: "EnergyTransferModeEnum \<Rightarrow> string" where
  "EnergyTransferModeEnum_value AC_SINGLE_PHASE_CORE = ''AC_single_phase_core''"
| "EnergyTransferModeEnum_value AC_THREE_PHASE_CORE = ''AC_three_phase_core''"
| "EnergyTransferModeEnum_value DC_CORE = ''DC_core''"
| "EnergyTransferModeEnum_value DC_EXTENDED = ''DC_extended''"
| "EnergyTransferModeEnum_value DC_COMBO_CORE = ''DC_combo_core''"
| "EnergyTransferModeEnum_value DC_UNIQUE = ''DC_unique''"

text \<open>\<^verbatim>\<open>ServiceID\<close> is an \<^verbatim>\<open>IntEnum\<close>; service ids are integers.\<close>

definition ServiceID_CHARGING :: int where "ServiceID_CHARGING = 1"
definition ServiceID_CERTIFICATE :: int where "ServiceID_CERTIFICATE = 2"
definition ServiceID_INTERNET :: int where "ServiceID_INTERNET = 3"
definition ServiceID_CUSTOM :: int where "ServiceID_CUSTOM = 4"

datatype ServiceCategory =
    ServiceCategory_CHARGING
  | ServiceCategory_CERTIFICATE
  | ServiceCategory_INTERNET
  | ServiceCategory_CUSTOM

datatype ServiceName =
    ServiceName_CHARGING
  | ServiceName_CERTIFICATE
  | ServiceName_INTERNET
  | ServiceName_CUSTOM

datatype EVSENotification = EVSENotification_NONE | STOP_CHARGING | RE_NEGOTIATION

datatype EVSEProcessing = FINISHED | ONGOING | ONGOING_WAITING_FOR_CUSTOMER

datatype ChargeProgress = START | STOP | RENEGOTIATE

datatype ChargingSession = TERMINATE | PAUSE

datatype Namespace = ISO_V2_MSG_DEF

datatype IsolationLevel = INVALID | VALID | WARNING | FAULT

datatype DCEVSEStatusCode =
    EVSE_NOT_READY
  | EVSE_READY
  | EVSE_SHUTDOWN
  | EVSE_UTILITY_INTERUPT_EVENT
  | EVSE_ISOLATION_MONITORING_ACTIVE
  | EVSE_EMERGENCY_SHUTDOWN
  | EVSE_MALFUNCTION

text \<open>The two sequence timeouts the ISO 15118-2 states use, in seconds.\<close>

definition V2G_EVCC_COMMUNICATION_SETUP_TIMEOUT :: nat where
  "V2G_EVCC_COMMUNICATION_SETUP_TIMEOUT = 20"

definition V2G_SECC_SEQUENCE_TIMEOUT :: nat where
  "V2G_SECC_SEQUENCE_TIMEOUT = 60"

subsection \<open>Data types of the messages\<close>

text \<open>
  Modelled from the spec: the ISO 15118-2 message classes (\<^verbatim>\<open>iso15118_2/body.py\<close>,
  \<^verbatim>\<open>iso15118_2/datatypes.py\<close>) are not among the sources. Each record carries the
  fields the states read or write, under the names the states use; where two classes
  share a field name, the record's field carries a prefix.
\<close>

record ACEVSEStatus =
  notification_max_delay :: int
  evse_notification :: EVSENotification
  rcd :: bool

record DCEVSEStatus =
  dc_notification_max_delay :: int
  dc_evse_notification :: EVSENotification
  evse_isolation_status :: "IsolationLevel option"
  evse_status_code :: DCEVSEStatusCode

record ACEVSEChargeParameter =
  ac_evse_status :: ACEVSEStatus
  evse_nominal_voltage :: int
  evse_max_current :: int

record DCEVSEChargeParameter =
  dc_evse_status :: DCEVSEStatus
  evse_maximum_power_limit :: int
  evse_maximum_current_limit :: int
  evse_maximum_voltage_limit :: int

record SalesTariff =
  sales_tariff_id :: string
  sales_tariff_entries :: "int list"

record SAScheduleTupleEntry =
  sa_schedule_tuple_id :: int
  p_max_schedule :: "int list"
  sales_tariff :: "SalesTariff option"

record ChargingProfile =
  profile_entries :: "int list"

record MeterInfo =
  meter_id :: string
  meter_reading :: "int option"

record CertificateChain =
  chain_id :: "string option"
  certificate :: bytes
  sub_certificates :: "bytes list option"

record EncryptedPrivateKey =
  epk_id :: string
  epk_value :: bytes

record DHPublicKey =
  dh_id :: string
  dh_value :: bytes

record EMAID =
  emaid_id :: string
  emaid_value :: string

record ServiceDetails =
  service_id :: int
  service_name :: "ServiceName option"
  service_category :: ServiceCategory
  free_service :: bool

record ChargeService =
  cs_service_id :: int
  cs_service_name :: "ServiceName option"
  cs_service_category :: ServiceCategory
  cs_free_service :: bool
  supported_energy_transfer_mode :: "EnergyTransferModeEnum list"

record Parameter =
  parameter_name :: string
  str_value :: string

record ParameterSet =
  parameter_set_id :: int
  parameters :: "Parameter list"

record SelectedService =
  selected_service_id :: int
  selected_parameter_set_id :: "int option"

subsection \<open>Requests\<close>

record SessionSetupReq =
  req_evcc_id :: string

record ServiceDiscoveryReq =
  service_scope :: "string option"
  req_service_category :: "ServiceCategory option"

record ServiceDetailReq =
  req_service_id :: int

record PaymentServiceSelectionReq =
  req_selected_auth_option :: AuthEnum
  selected_service_list :: "SelectedService list"

record CertificateInstallationReq =
  cert_install_id :: string
  oem_provisioning_cert :: bytes

record PaymentDetailsReq =
  req_emaid :: string
  cert_chain :: CertificateChain

record AuthorizationReq =
  auth_id :: "string option"
  gen_challenge :: "bytes option"

record EVChargeParameter =
  departure_time :: "int option"

record ChargeParameterDiscoveryReq =
  max_entries_sa_schedule_tuple :: "int option"
  requested_energy_mode :: EnergyTransferModeEnum
  ac_ev_charge_parameter :: "EVChargeParameter option"
  dc_ev_charge_parameter :: "EVChargeParameter option"

record PowerDeliveryReq =
  charge_progress :: ChargeProgress
  req_sa_schedule_tuple_id :: int
  charging_profile :: "ChargingProfile option"

record MeteringReceiptReq =
  metering_id :: string
  meter_info :: MeterInfo

record SessionStopReq =
  charging_session :: ChargingSession

text \<open>
  The body of a message holds exactly one request; \<^verbatim>\<open>msg.body.x_req\<close> is set for one
  \<open>x\<close> and \<^verbatim>\<open>None\<close> for all others. The constructors carry the names of these
  attributes.
\<close>

datatype Body =
    session_setup_req SessionSetupReq
  | service_discovery_req ServiceDiscoveryReq
  | service_detail_req ServiceDetailReq
  | payment_service_selection_req PaymentServiceSelectionReq
  | certificate_installation_req CertificateInstallationReq
  | payment_details_req PaymentDetailsReq
  | authorization_req AuthorizationReq
  | cable_check_req
  | pre_charge_req
  | charge_parameter_discovery_req ChargeParameterDiscoveryReq
  | power_delivery_req PowerDeliveryReq
  | charging_status_req
  | current_demand_req
  | metering_receipt_req MeteringReceiptReq
  | welding_detection_req
  | session_stop_req SessionStopReq

record MessageHeader =
  header_session_id :: string
  header_signature :: "bytes option"

record V2GMessageV2 =
  header :: MessageHeader
  body :: Body

text \<open>The four kinds of message a state can be handed.\<close>

datatype message =
    SupportedAppProtocolReq
  | SupportedAppProtocolRes
  | V2GMessageV2 V2GMessageV2
  | V2GMessageV20

text \<open>The type of a request, as the key of the failed-response registry.\<close>

datatype msg_type =
    T_SessionSetupReq
  | T_ServiceDiscoveryReq
  | T_ServiceDetailReq
  | T_PaymentServiceSelectionReq
  | T_CertificateInstallationReq
  | T_PaymentDetailsReq
  | T_AuthorizationReq
  | T_CableCheckReq
  | T_PreChargeReq
  | T_ChargeParameterDiscoveryReq
  | T_PowerDeliveryReq
  | T_ChargingStatusReq
  | T_CurrentDemandReq
  | T_MeteringReceiptReq
  | T_WeldingDetectionReq
  | T_SessionStopReq

fun type_of_body :: "Body \<Rightarrow> msg_type" where
  "type_of_body (session_setup_req _) = T_SessionSetupReq"
| "type_of_body (service_discovery_req _) = T_ServiceDiscoveryReq"
| "type_of_body (service_detail_req _) = T_ServiceDetailReq"
| "type_of_body (payment_service_selection_req _) = T_PaymentServiceSelectionReq"
| "type_of_body (certificate_installation_req _) = T_CertificateInstallationReq"
| "type_of_body (payment_details_req _) = T_PaymentDetailsReq"
| "type_of_body (authorization_req _) = T_AuthorizationReq"
| "type_of_body cable_check_req = T_CableCheckReq"
| "type_of_body pre_charge_req = T_PreChargeReq"
| "type_of_body (charge_parameter_discovery_req _) = T_ChargeParameterDiscoveryReq"
| "type_of_body (power_delivery_req _) = T_PowerDeliveryReq"
| "type_of_body charging_status_req = T_ChargingStatusReq"
| "type_of_body current_demand_req = T_CurrentDemandReq"
| "type_of_body (metering_receipt_req _) = T_MeteringReceiptReq"
| "type_of_body welding_detection_req = T_WeldingDetectionReq"
| "type_of_body (session_stop_req _) = T_SessionStopReq"

subsection \<open>Responses\<close>

text \<open>
  One constructor per response class, its arguments in the order of the keyword
  arguments the states pass. \<open>FailedResponse t c\<close> is the entry of the failed-response
  registry for the request type \<open>t\<close>, with its preset response code replaced by \<open>c\<close>.
\<close>

datatype response =
    SessionSetupRes ResponseCode string nat
  | ServiceDiscoveryRes ResponseCode "AuthEnum list" ChargeService "ServiceDetails list option"
  | ServiceDetailRes ResponseCode int "ParameterSet list"
  | PaymentServiceSelectionRes ResponseCode
  | CertificateInstallationRes ResponseCode CertificateChain CertificateChain
      EncryptedPrivateKey DHPublicKey EMAID
  | PaymentDetailsRes ResponseCode bytes nat
  | AuthorizationRes ResponseCode EVSEProcessing
  | ChargeParameterDiscoveryRes ResponseCode EVSEProcessing "SAScheduleTupleEntry list"
      "ACEVSEChargeParameter option" "DCEVSEChargeParameter option"
  | PowerDeliveryRes ResponseCode ACEVSEStatus
  | MeteringReceiptRes ResponseCode "ACEVSEStatus option" "DCEVSEStatus option"
  | ChargingStatusRes ResponseCode string "int option" ACEVSEStatus "MeterInfo option" bool
  | SessionStopRes ResponseCode
  | FailedResponse "msg_type option" ResponseCode

fun response_code :: "response \<Rightarrow> ResponseCode" where
  "response_code (SessionSetupRes c _ _) = c"
| "response_code (ServiceDiscoveryRes c _ _ _) = c"
| "response_code (ServiceDetailRes c _ _) = c"
| "response_code (PaymentServiceSelectionRes c) = c"
| "response_code (CertificateInstallationRes c _ _ _ _ _) = c"
| "response_code (PaymentDetailsRes c _ _) = c"
| "response_code (AuthorizationRes c _) = c"
| "response_code (ChargeParameterDiscoveryRes c _ _ _ _) = c"
| "response_code (PowerDeliveryRes c _) = c"
| "response_code (MeteringReceiptRes c _ _) = c"
| "response_code (ChargingStatusRes c _ _ _ _ _) = c"
| "response_code (SessionStopRes c) = c"
| "response_code (FailedResponse _ c) = c"

subsection \<open>States, session context and collaborators\<close>

datatype state_class =
    SessionSetup
  | ServiceDiscovery
  | ServiceDetail
  | PaymentServiceSelection
  | CertificateInstallation
  | PaymentDetails
  | Authorization
  | ChargeParameterDiscovery
  | PowerDelivery
  | MeteringReceipt
  | CableCheck
  | PreCharge
  | ChargingStatus
  | CurrentDemand
  | WeldingDetection
  | SessionStop
  | Terminate

text \<open>\<^verbatim>\<open>StopNotification(successful, reason, peer_name)\<close>.\<close>

datatype StopNotification = StopNotification bool string string

text \<open>
  The EVSE controller and the configuration, as the states consult them. Their
  operations have no side effect the engine knows of, so each is the value it returns.
\<close>

record evse_controller =
  get_evse_id :: string
  get_supported_energy_transfer_modes :: "EnergyTransferModeEnum list"
  get_ac_evse_charge_parameter :: ACEVSEChargeParameter
  get_dc_evse_charge_parameter :: DCEVSEChargeParameter
  get_sa_schedule_list :: "int option \<Rightarrow> int \<Rightarrow> SAScheduleTupleEntry list"
  is_authorised :: bool
  get_ac_evse_status :: ACEVSEStatus
  get_dc_evse_status :: DCEVSEStatus

record config =
  supported_auth_options :: "AuthEnum list"
  free_charging_service :: bool
  allow_cert_install_service :: bool
  free_cert_install_service :: bool

record comm_session =
  session_id :: string
  evcc_id :: string
  is_tls :: bool
  selected_auth_option :: "AuthEnum option"
  offered_auth_options :: "AuthEnum list"
  offered_services :: "ServiceDetails list"
  offered_schedules :: "SAScheduleTupleEntry list"
  selected_energy_mode :: "EnergyTransferModeEnum option"
  selected_schedule :: "int option"
  charge_progress_started :: bool
  sent_meter_info :: "MeterInfo option"
  contract_cert_chain :: "CertificateChain option"
  stop_reason :: "StopNotification option"
  peername :: string
  config :: config
  evse_controller :: evse_controller

text \<open>
  The output slot a state fills: next state, payload, timeout, namespace and the
  optional signature of the header.
\<close>

record out_slot =
  next_state :: "state_class option"
  payload :: response
  timeout :: nat
  namespace :: Namespace
  signature :: "bytes option"

text \<open>What a call of \<^verbatim>\<open>process_message\<close> threads through: the session and the slot.\<close>

record machine =
  session :: comm_session
  slot :: "out_slot option"

subsection \<open>Security services, randomness and clock\<close>

datatype CertPath =
    OEM_SUB_CA2_DER | OEM_SUB_CA1_DER | OEM_ROOT_DER | OEM_LEAF_DER
  | CONTRACT_LEAF_DER | MO_SUB_CA2_DER | MO_SUB_CA1_DER | MO_ROOT_DER
  | CPS_LEAF_DER | CPS_SUB_CA2_DER | CPS_SUB_CA1_DER

datatype KeyPath = CONTRACT_LEAF_PEM | CPS_LEAF_PEM | MO_SUB_CA2_PEM

datatype exi_element =
    Exi_CertificateInstallationReq CertificateInstallationReq
  | Exi_AuthorizationReq AuthorizationReq
  | Exi_MeteringReceiptReq MeteringReceiptReq
  | Exi_SalesTariff SalesTariff
  | Exi_CertificateChain CertificateChain
  | Exi_EncryptedPrivateKey EncryptedPrivateKey
  | Exi_DHPublicKey DHPublicKey
  | Exi_EMAID EMAID

text \<open>
  The functions of \<^verbatim>\<open>iso15118.shared.security\<close> and \<^verbatim>\<open>exi_codec\<close>, the random
  source and the clock are outside the engine: a state is a function of what they
  return. A function that can raise returns the error on the left.
\<close>

record security =
  get_random_bytes :: "nat \<Rightarrow> bytes"
  time_now :: nat
  to_exi :: "exi_element \<Rightarrow> bytes"
  verify_signature ::
    "bytes option \<Rightarrow> (string option \<times> bytes) list \<Rightarrow> bytes
      \<Rightarrow> (bytes list \<times> CertPath) option \<Rightarrow> bool"
  load_cert :: "CertPath \<Rightarrow> bytes"
  load_priv_key :: "KeyPath \<Rightarrow> py_error + bytes"
  encrypt_priv_key :: "bytes \<Rightarrow> bytes \<Rightarrow> py_error + (bytes \<times> bytes)"
  create_signature :: "(string option \<times> bytes) list \<Rightarrow> bytes \<Rightarrow> bytes"
  verify_certs :: "bytes \<Rightarrow> bytes list \<Rightarrow> CertPath \<Rightarrow> py_error option"
  get_cert_cn :: "bytes \<Rightarrow> string"

section \<open>The shared helpers of a state\<close>

text \<open>
  Modelled from the spec: \<^verbatim>\<open>create_next_message\<close>, \<^verbatim>\<open>stop_state_machine\<close> and
  \<^verbatim>\<open>check_msg_v2\<close> belong to the base class \<^verbatim>\<open>StateSECC\<close>, which is not among the
  sources. The spec gives them as follows. A state fills one output slot
  \<open>(payload, next_state, timeout, namespace[, signature])\<close>; a later write replaces an
  earlier one. \<^verbatim>\<open>stop_state_machine(reason, incoming, response_code)\<close> marks abnormal
  completion and queues the registry's failed response for the type of the incoming
  message, with the placeholder response code overridden, and the next state
  \<open>Terminate\<close>. \<^verbatim>\<open>check_msg_v2\<close> verifies that the type of the inbound message is in
  the accepted set, on a first visit only the first type of that set; if not it replies
  with the failed response for the inbound type, code \<open>FAILED_SEQUENCE_ERROR\<close>, and
  terminates.
\<close>

definition create_next_message ::
  "state_class option \<Rightarrow> response \<Rightarrow> nat \<Rightarrow> Namespace \<Rightarrow> bytes option \<Rightarrow> machine \<Rightarrow> machine"
where
  "create_next_message nxt msg t ns sg m =
     m\<lparr>slot := Some \<lparr>next_state = nxt, payload = msg, timeout = t, namespace = ns,
                      signature = sg\<rparr>\<rparr>"

fun msg_type_of :: "message \<Rightarrow> msg_type option" where
  "msg_type_of (V2GMessageV2 v) = Some (type_of_body (body v))"
| "msg_type_of _ = None"

definition stop_state_machine ::
  "string \<Rightarrow> message \<Rightarrow> ResponseCode \<Rightarrow> machine \<Rightarrow> machine"
where
  "stop_state_machine reason faulty_request code m =
     create_next_message (Some Terminate) (FailedResponse (msg_type_of faulty_request) code)
       0 ISO_V2_MSG_DEF None
       (m\<lparr>session := (session m)
            \<lparr>stop_reason := Some (StopNotification False reason (peername (session m)))\<rparr>\<rparr>)"

definition check_msg_v2 ::
  "message \<Rightarrow> msg_type list \<Rightarrow> bool \<Rightarrow> machine \<Rightarrow> V2GMessageV2 option \<times> machine"
where
  "check_msg_v2 message expected_msg_types expect_first m =
     (case message of
        V2GMessageV2 v \<Rightarrow>
          if type_of_body (body v)
               \<in> set (if expect_first then take 1 expected_msg_types else expected_msg_types)
          then (Some v, m)
          else (None, stop_state_machine ''message not accepted in this state'' message
                        FAILED_SEQUENCE_ERROR m)
      | _ \<Rightarrow> (None, stop_state_machine ''not a valid message type in this state'' message
                      FAILED_SEQUENCE_ERROR m))"

text \<open>
  The result of \<^verbatim>\<open>process_message\<close>: the exception it raised, if any, the
  \<^verbatim>\<open>expecting_..._req\<close> flag of the state object afterwards, and the session with the
  output slot. What was assigned before an exception stays assigned.
\<close>

type_synonym result = "py_error option \<times> bool \<times> machine"

section \<open>The states of ISO 15118-2\<close>

text \<open>
  For each state, \<open>X_own\<close> is the part of \<^verbatim>\<open>X.process_message\<close> that follows the
  initial check and the hand-over of the other accepted request types, that is, what the
  state does with its own request. \<open>process_message\<close> below puts the check and the
  hand-over in front of it.

  The reason handed to \<^verbatim>\<open>stop_state_machine\<close> goes to the log and into the stop
  notification. Where the source builds it with an f-string, the embedding keeps the
  constant part of the text, without the interpolated values.
\<close>

subsection \<open>SessionSetup\<close>

definition SessionSetup_own ::
  "security \<Rightarrow> bool \<Rightarrow> machine \<Rightarrow> V2GMessageV2 \<Rightarrow> SessionSetupReq \<Rightarrow> result"
where
  "SessionSetup_own sec expecting m msg req =
     (let cs = session m;
          fresh = py_upper (py_hex (get_random_bytes sec 8));
          (sid, code) =
            (if header_session_id (header msg) = py_hex (py_bytes 1)
             then (fresh, OK_NEW_SESSION_ESTABLISHED)
             else if header_session_id (header msg) = session_id cs
             then (session_id cs, OK_OLD_SESSION_JOINED)
             else (fresh, OK_NEW_SESSION_ESTABLISHED));
          session_setup_res =
            SessionSetupRes code (get_evse_id (evse_controller cs)) (time_now sec);
          m1 = m\<lparr>session := cs\<lparr>evcc_id := req_evcc_id req,
                                   session_id := sid\<rparr>\<rparr>
      in (None, expecting,
          create_next_message (Some ServiceDiscovery) session_setup_res
            V2G_SECC_SEQUENCE_TIMEOUT ISO_V2_MSG_DEF None m1))"

subsection \<open>ServiceDiscovery\<close>

definition get_services :: "ServiceCategory option \<Rightarrow> machine \<Rightarrow> response \<times> machine" where
  "get_services category_filter m =
     (let cs = session m;
          auth_options =
            (case selected_auth_option cs of
               Some a \<Rightarrow> (if a = EIM_V2 then [EIM_V2] else [PNC_V2])
             | None \<Rightarrow>
                 (if EIM \<in> set (supported_auth_options (config cs)) then [EIM_V2] else [])
                 @ (if PNC \<in> set (supported_auth_options (config cs)) \<and> is_tls cs
                    then [PNC_V2] else []));
          energy_modes = get_supported_energy_transfer_modes (evse_controller cs);
          charge_service =
            \<lparr>cs_service_id = ServiceID_CHARGING,
             cs_service_name = Some ServiceName_CHARGING,
             cs_service_category = ServiceCategory_CHARGING,
             cs_free_service = free_charging_service (config cs),
             supported_energy_transfer_mode = energy_modes\<rparr>;
          service_list =
            (if is_tls cs
             then (if allow_cert_install_service (config cs)
                      \<and> (category_filter = None
                           \<or> category_filter = Some ServiceCategory_CERTIFICATE)
                   then [\<lparr>service_id = 2,
                          service_name = Some ServiceName_CERTIFICATE,
                          service_category = ServiceCategory_CERTIFICATE,
                          free_service = free_cert_install_service (config cs)\<rparr>]
                   else [])
             else []);
          offered = (if length service_list > 0 then Some service_list else None);
          service_discovery_res = ServiceDiscoveryRes OK auth_options charge_service offered
      in (service_discovery_res,
          m\<lparr>session := cs\<lparr>offered_auth_options := auth_options,
                             offered_services := service_list\<rparr>\<rparr>))"

definition ServiceDiscovery_own ::
  "bool \<Rightarrow> machine \<Rightarrow> ServiceDiscoveryReq \<Rightarrow> result"
where
  "ServiceDiscovery_own expecting m req =
     (let (service_discovery_res, m1) =
            get_services (req_service_category req) m
      in (None, False,
          create_next_message None service_discovery_res
            V2G_SECC_SEQUENCE_TIMEOUT ISO_V2_MSG_DEF None m1))"

subsection \<open>ServiceDetail\<close>

definition ServiceDetail_own :: "bool \<Rightarrow> machine \<Rightarrow> ServiceDetailReq \<Rightarrow> result" where
  "ServiceDetail_own expecting m req =
     (let parameter_set =
            (if req_service_id req = ServiceID_CERTIFICATE
             then [\<lparr>parameter_set_id = 1,
                    parameters = [\<lparr>parameter_name = ''Service'',
                                   str_value = ''Installation''\<rparr>]\<rparr>]
             else []);
          service_detail_res =
            ServiceDetailRes OK (req_service_id req) parameter_set
      in (None, False,
          create_next_message None service_detail_res
            V2G_SECC_SEQUENCE_TIMEOUT ISO_V2_MSG_DEF None m))"

subsection \<open>PaymentServiceSelection\<close>

text \<open>
  The loop over the selected services: \<open>Inl i\<close> when the service \<open>i\<close> is neither the
  charge service nor an offered one (the loop returns there), else \<open>Inr\<close> of the flag
  \<^verbatim>\<open>charge_service_selected\<close>.
\<close>

fun check_selected_services :: "int list \<Rightarrow> SelectedService list \<Rightarrow> bool \<Rightarrow> int + bool" where
  "check_selected_services offered [] charge_service_selected = Inr charge_service_selected"
| "check_selected_services offered (service # rest) charge_service_selected =
     (if selected_service_id service = ServiceID_CHARGING
      then check_selected_services offered rest True
      else if selected_service_id service \<notin> set offered
      then Inl (selected_service_id service)
      else check_selected_services offered rest charge_service_selected)"

definition PaymentServiceSelection_own ::
  "bool \<Rightarrow> machine \<Rightarrow> message \<Rightarrow> PaymentServiceSelectionReq \<Rightarrow> result"
where
  "PaymentServiceSelection_own expecting m message service_selection_req =
     (let cs = session m in
      case check_selected_services (map service_id (offered_services cs))
             (selected_service_list service_selection_req) False of
        Inl i \<Rightarrow>
          (None, expecting,
           stop_state_machine ''Selected service was not offered'' message
             FAILED_SERVICE_SELECTION_INVALID m)
      | Inr charge_service_selected \<Rightarrow>
          if \<not> charge_service_selected
          then (None, expecting,
                stop_state_machine ''Charge service not selected'' message
                  FAILED_NO_CHARGE_SERVICE_SELECTED m)
          else if req_selected_auth_option service_selection_req
                    \<notin> set (offered_auth_options cs)
          then (None, expecting,
                stop_state_machine ''Selected authorization method was not offered'' message
                  FAILED_PAYMENT_SELECTION_INVALID m)
          else (None, False,
                create_next_message None (PaymentServiceSelectionRes OK)
                  V2G_SECC_SEQUENCE_TIMEOUT ISO_V2_MSG_DEF None
                  (m\<lparr>session := cs\<lparr>selected_auth_option :=
                        Some (req_selected_auth_option service_selection_req)\<rparr>\<rparr>)))"

subsection \<open>CertificateInstallation\<close>

definition CertificateInstallation_own ::
  "security \<Rightarrow> bool \<Rightarrow> machine \<Rightarrow> message \<Rightarrow> V2GMessageV2 \<Rightarrow> CertificateInstallationReq
    \<Rightarrow> result"
where
  "CertificateInstallation_own sec expecting m message msg cert_install_req =
     (if \<not> verify_signature sec (header_signature (header msg))
             [(Some (cert_install_id cert_install_req),
               to_exi sec (Exi_CertificateInstallationReq cert_install_req))]
             (oem_provisioning_cert cert_install_req)
             (Some ([load_cert sec OEM_SUB_CA2_DER, load_cert sec OEM_SUB_CA1_DER],
                    OEM_ROOT_DER))
      then (None, expecting,
            stop_state_machine ''Signature verification failed for CertificateInstallationReq''
              message FAILED_SIGNATURE_ERROR m)
      else
        case (case load_priv_key sec CONTRACT_LEAF_PEM of
                Inl e \<Rightarrow> Inl e
              | Inr k \<Rightarrow> encrypt_priv_key sec (load_cert sec OEM_LEAF_DER) k) of
          Inl EncryptionError \<Rightarrow>
            (None, expecting,
             stop_state_machine
               (''EncryptionError while trying to encrypt the ''
                @ ''private key for the contract certificate'')
               message FAILED m)
        | Inl PrivateKeyReadError \<Rightarrow>
            (None, expecting,
             stop_state_machine ''Cannot read private key to encrypt'' message FAILED m)
        | Inl e \<Rightarrow> (Some e, expecting, m)
        | Inr (dh_pub_key, encrypted_priv_key_bytes) \<Rightarrow>
            (let contract_chain =
                   \<lparr>chain_id = Some ''id1'',
                    certificate = load_cert sec CONTRACT_LEAF_DER,
                    sub_certificates =
                      Some [load_cert sec MO_SUB_CA2_DER, load_cert sec MO_SUB_CA1_DER]\<rparr>;
                 encrypted_priv_key =
                   \<lparr>epk_id = ''id2'', epk_value = encrypted_priv_key_bytes\<rparr>;
                 dh_public_key = \<lparr>dh_id = ''id3'', dh_value = dh_pub_key\<rparr>;
                 emaid = \<lparr>emaid_id = ''id4'',
                          emaid_value = get_cert_cn sec (load_cert sec CONTRACT_LEAF_DER)\<rparr>;
                 cps_certificate_chain =
                   \<lparr>chain_id = None,
                    certificate = load_cert sec CPS_LEAF_DER,
                    sub_certificates =
                      Some [load_cert sec CPS_SUB_CA2_DER, load_cert sec CPS_SUB_CA1_DER]\<rparr>;
                 cert_install_res =
                   CertificateInstallationRes OK cps_certificate_chain contract_chain
                     encrypted_priv_key dh_public_key emaid;
                 elements_to_sign =
                   [(chain_id contract_chain,
                     to_exi sec (Exi_CertificateChain contract_chain)),
                    (Some (epk_id encrypted_priv_key),
                     to_exi sec (Exi_EncryptedPrivateKey encrypted_priv_key)),
                    (Some (dh_id dh_public_key), to_exi sec (Exi_DHPublicKey dh_public_key)),
                    (Some (emaid_id emaid), to_exi sec (Exi_EMAID emaid))]
             in case load_priv_key sec CPS_LEAF_PEM of
                  Inl PrivateKeyReadError \<Rightarrow>
                    (None, expecting,
                     stop_state_machine ''Cannot read private key needed to create signature''
                       message FAILED m)
                | Inl e \<Rightarrow> (Some e, expecting, m)
                | Inr signature_key \<Rightarrow>
                    (None, expecting,
                     create_next_message (Some PaymentDetails) cert_install_res
                       V2G_SECC_SEQUENCE_TIMEOUT ISO_V2_MSG_DEF
                       (Some (create_signature sec elements_to_sign signature_key)) m)))"

subsection \<open>PaymentDetails\<close>

definition PaymentDetails_own ::
  "security \<Rightarrow> bool \<Rightarrow> machine \<Rightarrow> message \<Rightarrow> PaymentDetailsReq \<Rightarrow> result"
where
  "PaymentDetails_own sec expecting m message req =
     (let leaf_cert = certificate (cert_chain req) in
      case sub_certificates (cert_chain req) of
        None \<Rightarrow> (Some (AttributeError ''certificates''), expecting, m)
      | Some sub_ca_certs \<Rightarrow>
          (case verify_certs sec leaf_cert sub_ca_certs MO_ROOT_DER of
             None \<Rightarrow>
               (None, expecting,
                create_next_message (Some Authorization)
                  (PaymentDetailsRes OK (get_random_bytes sec 16) (time_now sec))
                  V2G_SECC_SEQUENCE_TIMEOUT ISO_V2_MSG_DEF None
                  (m\<lparr>session := (session m)
                       \<lparr>contract_cert_chain := Some (cert_chain req)\<rparr>\<rparr>))
           | Some CertSignatureError \<Rightarrow>
               (None, expecting,
                stop_state_machine ''CertSignatureError'' message FAILED_CERT_CHAIN_ERROR m)
           | Some CertChainLengthError \<Rightarrow>
               (None, expecting,
                stop_state_machine ''CertChainLengthError'' message FAILED_CERT_CHAIN_ERROR m)
           | Some CertExpiredError \<Rightarrow>
               (None, expecting,
                stop_state_machine ''CertExpiredError'' message FAILED_CERTIFICATE_EXPIRED m)
           | Some CertRevokedError \<Rightarrow>
               (None, expecting,
                stop_state_machine ''CertRevokedError'' message FAILED_CERTIFICATE_REVOKED m)
           | Some CertNotYetValidError \<Rightarrow>
               (None, expecting, stop_state_machine ''CertNotYetValidError'' message FAILED m)
           | Some CertAttributeError \<Rightarrow>
               (None, expecting, stop_state_machine ''CertAttributeError'' message FAILED m)
           | Some e \<Rightarrow> (Some e, expecting, m)))"

subsection \<open>Authorization\<close>

definition Authorization_own ::
  "security \<Rightarrow> bool \<Rightarrow> machine \<Rightarrow> message \<Rightarrow> V2GMessageV2 \<Rightarrow> AuthorizationReq \<Rightarrow> result"
where
  "Authorization_own sec expecting m message msg req =
     (let cs = session m;
          finish =
            (let (auth_status, nxt) =
                   (if is_authorised (evse_controller cs)
                    then (FINISHED, ChargeParameterDiscovery)
                    else (ONGOING, Authorization))
             in (None, expecting,
                 create_next_message (Some nxt) (AuthorizationRes OK auth_status)
                   V2G_SECC_SEQUENCE_TIMEOUT ISO_V2_MSG_DEF None m))
      in if selected_auth_option cs = Some PNC_V2
         then (case contract_cert_chain cs of
                 None \<Rightarrow>
                   (None, expecting,
                    stop_state_machine
                      ''No contract certificate chain available to verify AuthorizationReq''
                      message FAILED_SIGNATURE_ERROR m)
               | Some chain \<Rightarrow>
                   if \<not> verify_signature sec (header_signature (header msg))
                          [(auth_id req,
                            to_exi sec (Exi_AuthorizationReq req))]
                          (certificate chain) None
                   then (None, expecting,
                         stop_state_machine ''Unable to verify signature of AuthorizationReq''
                           message FAILED_SIGNATURE_ERROR m)
                   else finish)
         else finish)"

subsection \<open>ChargeParameterDiscovery\<close>

definition ChargeParameterDiscovery_own ::
  "security \<Rightarrow> bool \<Rightarrow> machine \<Rightarrow> message \<Rightarrow> ChargeParameterDiscoveryReq \<Rightarrow> result"
where
  "ChargeParameterDiscovery_own sec expecting m message charge_params_req =
     (let ec = evse_controller (session m) in
      if requested_energy_mode charge_params_req
           \<notin> set (get_supported_energy_transfer_modes ec)
      then (None, expecting,
            stop_state_machine ''not offered as energy transfer mode'' message
              FAILED_WRONG_ENERGY_TRANSFER_MODE m)
      else
        (let m1 = m\<lparr>session := (session m)
                       \<lparr>selected_energy_mode :=
                          Some (requested_energy_mode charge_params_req)\<rparr>\<rparr>;
             max_schedule_entries = max_entries_sa_schedule_tuple charge_params_req
         in case (case ac_ev_charge_parameter charge_params_req of
                    Some ac \<Rightarrow>
                      Inr (Some (get_ac_evse_charge_parameter ec), None, departure_time ac)
                  | None \<Rightarrow>
                      (case dc_ev_charge_parameter charge_params_req of
                         Some dc \<Rightarrow>
                           Inr (None, Some (get_dc_evse_charge_parameter ec),
                                departure_time dc)
                       | None \<Rightarrow> Inl (AttributeError ''departure_time''))) of
              Inl e \<Rightarrow> (Some e, expecting, m1)
            | Inr (ac_evse_charge_params, dc_evse_charge_params, departure) \<Rightarrow>
                (let departure_time0 = (case departure of None \<Rightarrow> 0 | Some t \<Rightarrow> t);
                     sa_schedule_list =
                       get_sa_schedule_list ec max_schedule_entries departure_time0;
                     charge_params_res =
                       ChargeParameterDiscoveryRes OK
                         (if sa_schedule_list \<noteq> [] then FINISHED else ONGOING)
                         sa_schedule_list ac_evse_charge_params dc_evse_charge_params
                 in if sa_schedule_list \<noteq> []
                    then
                      (let m2 = m1\<lparr>session := (session m1)
                                      \<lparr>offered_schedules := sa_schedule_list\<rparr>\<rparr>
                       in case (case sa_schedule_list of
                                  [] \<Rightarrow> Inr None
                                | schedule # _ \<Rightarrow>
                                    (case sales_tariff schedule of
                                       None \<Rightarrow> Inr None
                                     | Some tariff \<Rightarrow>
                                         (case load_priv_key sec MO_SUB_CA2_PEM of
                                            Inl PrivateKeyReadError \<Rightarrow> Inr None
                                          | Inl e \<Rightarrow> Inl e
                                          | Inr key \<Rightarrow>
                                              Inr (Some (create_signature sec
                                                     [(Some (sales_tariff_id tariff),
                                                       to_exi sec (Exi_SalesTariff tariff))]
                                                     key))))) of
                            Inl e \<Rightarrow> (Some e, expecting, m2)
                          | Inr sg \<Rightarrow>
                              (None, False,
                               create_next_message (Some PowerDelivery) charge_params_res
                                 V2G_SECC_SEQUENCE_TIMEOUT ISO_V2_MSG_DEF sg m2))
                    else
                      (None, True,
                       create_next_message None charge_params_res
                         V2G_SECC_SEQUENCE_TIMEOUT ISO_V2_MSG_DEF None m1))))"

subsection \<open>PowerDelivery\<close>

definition PowerDelivery_own ::
  "bool \<Rightarrow> machine \<Rightarrow> message \<Rightarrow> PowerDeliveryReq \<Rightarrow> result"
where
  "PowerDelivery_own expecting m message req =
     (let cs = session m in
      if req_sa_schedule_tuple_id req \<notin> set (map sa_schedule_tuple_id (offered_schedules cs))
      then (None, expecting,
            stop_state_machine ''does not match any offered tariff IDs'' message
              FAILED_TARIFF_SELECTION_INVALID m)
      else if charge_progress req = START \<and> charging_profile req = None
      then (None, expecting,
            stop_state_machine
              ''No charge profile provided although ChargeProgress was set to Start''
              message FAILED_CHARGING_PROFILE_INVALID m)
      else
        (let (nxt, m1) =
               (if charge_progress req = START
                then (ChargingStatus,
                      m\<lparr>session := cs\<lparr>selected_schedule := Some (req_sa_schedule_tuple_id req),
                                       charge_progress_started := True\<rparr>\<rparr>)
                else if charge_progress req = STOP
                then (SessionStop, m)
                else if charge_progress_started cs
                then (ChargeParameterDiscovery, m)
                else (Terminate,
                      stop_state_machine
                        ''EVCC wants to renegotiate, but charge progress has not yet started''
                        message FAILED m));
             power_delivery_res =
               PowerDeliveryRes OK (get_ac_evse_status (evse_controller (session m1)))
         in (None, False,
             create_next_message (Some nxt) power_delivery_res
               V2G_SECC_SEQUENCE_TIMEOUT ISO_V2_MSG_DEF None m1)))"

subsection \<open>MeteringReceipt\<close>

text \<open>Python's truth value of an optional integer: \<^verbatim>\<open>None\<close> and \<open>0\<close> are false.\<close>

fun truthy :: "int option \<Rightarrow> bool" where
  "truthy None = False"
| "truthy (Some n) = (n \<noteq> 0)"

definition MeteringReceipt_own ::
  "security \<Rightarrow> bool \<Rightarrow> machine \<Rightarrow> message \<Rightarrow> V2GMessageV2 \<Rightarrow> MeteringReceiptReq \<Rightarrow> result"
where
  "MeteringReceipt_own sec expecting m message msg req =
     (let cs = session m;
          reason_opt =
            (case contract_cert_chain cs of
               None \<Rightarrow>
                 Some (''No contract certificate chain available to verify ''
                       @ ''signature of MeteringReceiptReq'')
             | Some chain \<Rightarrow>
                 if \<not> verify_signature sec (header_signature (header msg))
                        [(Some (metering_id req), to_exi sec (Exi_MeteringReceiptReq req))]
                        (certificate chain) None
                 then Some ''Unable to verify signature of MeteringReceiptReq''
                 else if \<not> truthy (meter_reading (meter_info req))
                         \<or> (case sent_meter_info cs of
                               None \<Rightarrow> False
                             | Some sent \<Rightarrow>
                                 truthy (meter_reading sent)
                                 \<and> meter_reading (meter_info req) \<noteq> meter_reading sent)
                 then Some (''EVCC's meter info is not a copy of the SECC's meter info ''
                            @ ''sent in CharginStatusRes/CurrentDemandRes'')
                 else None)
      in case reason_opt of
           Some reason \<Rightarrow>
             (None, expecting,
              stop_state_machine reason message FAILED_METERING_SIGNATURE_NOT_VALID m)
         | None \<Rightarrow>
             (let metering_receipt_res =
                    (if (case selected_energy_mode cs of
                           None \<Rightarrow> False
                         | Some mode \<Rightarrow> startswith (EnergyTransferModeEnum_value mode) ''AC'')
                     then MeteringReceiptRes OK
                            (Some (get_ac_evse_status (evse_controller cs))) None
                     else MeteringReceiptRes OK None
                            (Some (get_dc_evse_status (evse_controller cs))))
              in (None, False,
                  create_next_message None metering_receipt_res
                    V2G_SECC_SEQUENCE_TIMEOUT ISO_V2_MSG_DEF None m)))"

subsection \<open>ChargingStatus and SessionStop\<close>

definition ChargingStatus_own :: "bool \<Rightarrow> machine \<Rightarrow> result" where
  "ChargingStatus_own expecting m =
     (let cs = session m;
          res_meter_info = (None :: MeterInfo option);
          receipt_required = False;
          charging_status_res =
            ChargingStatusRes OK (get_evse_id (evse_controller cs)) (selected_schedule cs)
              \<lparr>notification_max_delay = 0, evse_notification = EVSENotification_NONE,
               rcd = False\<rparr>
              res_meter_info receipt_required;
          m1 = (case res_meter_info of
                  None \<Rightarrow> m
                | Some mi \<Rightarrow> m\<lparr>session := cs\<lparr>sent_meter_info := Some mi\<rparr>\<rparr>);
          nxt = (if receipt_required then Some MeteringReceipt else None)
      in (None, False,
          create_next_message nxt charging_status_res
            V2G_SECC_SEQUENCE_TIMEOUT ISO_V2_MSG_DEF None m1))"

definition SessionStop_own :: "bool \<Rightarrow> machine \<Rightarrow> SessionStopReq \<Rightarrow> result" where
  "SessionStop_own expecting m req =
     (let cs = session m;
          stopped = (if charging_session req = TERMINATE then ''terminated'' else ''paused'');
          m1 = m\<lparr>session := cs\<lparr>stop_reason :=
                  Some (StopNotification True
                          (''Communication session '' @ stopped @ '' successfully'')
                          (peername cs))\<rparr>\<rparr>
      in (None, expecting,
          create_next_message (Some Terminate) (SessionStopRes OK)
            V2G_SECC_SEQUENCE_TIMEOUT ISO_V2_MSG_DEF None m1))"

subsection \<open>Processing a message\<close>

text \<open>
  \<open>process_message sec X expecting m message\<close> is \<^verbatim>\<open>X.process_message(message)\<close> on
  a state object of class \<open>X\<close> whose \<^verbatim>\<open>expecting_..._req\<close> flag is \<open>expecting\<close>. A
  state hands a request of another accepted type over to a fresh object of that type's
  state, \<^verbatim>\<open>Y(self.comm_session).process_message(message)\<close>, whose flag starts as
  \<^verbatim>\<open>True\<close>, and returns; its own flag is then unchanged. \<open>CableCheck\<close>,
  \<open>PreCharge\<close>, \<open>CurrentDemand\<close> and \<open>WeldingDetection\<close> raise
  \<^verbatim>\<open>NotImplementedError\<close>.
\<close>

text \<open>The request type a state is named after; it orders the hand-overs.\<close>

fun own_type :: "state_class \<Rightarrow> msg_type option" where
  "own_type SessionSetup = Some T_SessionSetupReq"
| "own_type ServiceDiscovery = Some T_ServiceDiscoveryReq"
| "own_type ServiceDetail = Some T_ServiceDetailReq"
| "own_type PaymentServiceSelection = Some T_PaymentServiceSelectionReq"
| "own_type CertificateInstallation = Some T_CertificateInstallationReq"
| "own_type PaymentDetails = Some T_PaymentDetailsReq"
| "own_type Authorization = Some T_AuthorizationReq"
| "own_type ChargeParameterDiscovery = Some T_ChargeParameterDiscoveryReq"
| "own_type PowerDelivery = Some T_PowerDeliveryReq"
| "own_type MeteringReceipt = Some T_MeteringReceiptReq"
| "own_type CableCheck = Some T_CableCheckReq"
| "own_type PreCharge = Some T_PreChargeReq"
| "own_type ChargingStatus = Some T_ChargingStatusReq"
| "own_type CurrentDemand = Some T_CurrentDemandReq"
| "own_type WeldingDetection = Some T_WeldingDetectionReq"
| "own_type SessionStop = Some T_SessionStopReq"
| "own_type Terminate = None"

text \<open>The result of a hand-over, seen from the state that handed over.\<close>

definition handed_over :: "bool \<Rightarrow> result \<Rightarrow> result" where
  "handed_over expecting r = (fst r, expecting, snd (snd r))"

lemma check_msg_v2_Some:
  "check_msg_v2 message ts e m = (Some msg, m') \<Longrightarrow> message = V2GMessageV2 msg \<and> m' = m"
  by (auto simp: check_msg_v2_def split: message.splits if_splits)

function (sequential) process_message ::
  "security \<Rightarrow> state_class \<Rightarrow> bool \<Rightarrow> machine \<Rightarrow> message \<Rightarrow> result"
where
  "process_message sec SessionSetup expecting m message =
     (case check_msg_v2 message [T_SessionSetupReq] True m of
        (None, m1) \<Rightarrow> (None, expecting, m1)
      | (Some msg, m1) \<Rightarrow>
          (case body msg of
             session_setup_req req \<Rightarrow> SessionSetup_own sec expecting m1 msg req
           | _ \<Rightarrow> (Some (AttributeError ''evcc_id''), expecting, m1)))"
| "process_message sec ServiceDiscovery expecting m message =
     (case check_msg_v2 message
             [T_ServiceDiscoveryReq, T_ServiceDetailReq, T_PaymentServiceSelectionReq]
             expecting m of
        (None, m1) \<Rightarrow> (None, expecting, m1)
      | (Some msg, m1) \<Rightarrow>
          (case body msg of
             service_detail_req _ \<Rightarrow>
               handed_over expecting (process_message sec ServiceDetail True m1 message)
           | payment_service_selection_req _ \<Rightarrow>
               handed_over expecting
                 (process_message sec PaymentServiceSelection True m1 message)
           | service_discovery_req req \<Rightarrow> ServiceDiscovery_own expecting m1 req
           | _ \<Rightarrow> (Some (AttributeError ''service_category''), expecting, m1)))"
| "process_message sec ServiceDetail expecting m message =
     (case check_msg_v2 message [T_ServiceDetailReq, T_PaymentServiceSelectionReq]
             expecting m of
        (None, m1) \<Rightarrow> (None, expecting, m1)
      | (Some msg, m1) \<Rightarrow>
          (case body msg of
             payment_service_selection_req _ \<Rightarrow>
               handed_over expecting
                 (process_message sec PaymentServiceSelection True m1 message)
           | service_detail_req req \<Rightarrow> ServiceDetail_own expecting m1 req
           | _ \<Rightarrow> (Some (AttributeError ''service_id''), expecting, m1)))"
| "process_message sec PaymentServiceSelection expecting m message =
     (case check_msg_v2 message
             [T_PaymentServiceSelectionReq, T_CertificateInstallationReq,
              T_PaymentDetailsReq, T_AuthorizationReq]
             expecting m of
        (None, m1) \<Rightarrow> (None, expecting, m1)
      | (Some msg, m1) \<Rightarrow>
          (case body msg of
             certificate_installation_req _ \<Rightarrow>
               handed_over expecting
                 (process_message sec CertificateInstallation True m1 message)
           | payment_details_req _ \<Rightarrow>
               handed_over expecting (process_message sec PaymentDetails True m1 message)
           | authorization_req _ \<Rightarrow>
               handed_over expecting (process_message sec Authorization True m1 message)
           | payment_service_selection_req req \<Rightarrow>
               PaymentServiceSelection_own expecting m1 message req
           | _ \<Rightarrow> (Some (AttributeError ''selected_service_list''), expecting, m1)))"
| "process_message sec CertificateInstallation expecting m message =
     (case check_msg_v2 message [T_CertificateInstallationReq] True m of
        (None, m1) \<Rightarrow> (None, expecting, m1)
      | (Some msg, m1) \<Rightarrow>
          (case body msg of
             certificate_installation_req req \<Rightarrow>
               CertificateInstallation_own sec expecting m1 message msg req
           | _ \<Rightarrow> (Some (AttributeError ''id''), expecting, m1)))"
| "process_message sec PaymentDetails expecting m message =
     (case check_msg_v2 message [T_PaymentDetailsReq] True m of
        (None, m1) \<Rightarrow> (None, expecting, m1)
      | (Some msg, m1) \<Rightarrow>
          (case body msg of
             payment_details_req req \<Rightarrow> PaymentDetails_own sec expecting m1 message req
           | _ \<Rightarrow> (Some (AttributeError ''cert_chain''), expecting, m1)))"
| "process_message sec Authorization expecting m message =
     (case check_msg_v2 message [T_AuthorizationReq] True m of
        (None, m1) \<Rightarrow> (None, expecting, m1)
      | (Some msg, m1) \<Rightarrow>
          (case body msg of
             authorization_req req \<Rightarrow> Authorization_own sec expecting m1 message msg req
           | _ \<Rightarrow> (Some (AttributeError ''id''), expecting, m1)))"
| "process_message sec ChargeParameterDiscovery expecting m message =
     (case check_msg_v2 message [T_ChargeParameterDiscoveryReq, T_PowerDeliveryReq]
             expecting m of
        (None, m1) \<Rightarrow> (None, expecting, m1)
      | (Some msg, m1) \<Rightarrow>
          (case body msg of
             power_delivery_req _ \<Rightarrow>
               handed_over expecting (process_message sec PowerDelivery True m1 message)
           | charge_parameter_discovery_req req \<Rightarrow>
               ChargeParameterDiscovery_own sec expecting m1 message req
           | _ \<Rightarrow> (Some (AttributeError ''requested_energy_mode''), expecting, m1)))"
| "process_message sec PowerDelivery expecting m message =
     (case check_msg_v2 message
             [T_PowerDeliveryReq, T_ChargeParameterDiscoveryReq, T_ChargingStatusReq,
              T_SessionStopReq]
             expecting m of
        (None, m1) \<Rightarrow> (None, expecting, m1)
      | (Some msg, m1) \<Rightarrow>
          (case body msg of
             charge_parameter_discovery_req _ \<Rightarrow>
               handed_over expecting
                 (process_message sec ChargeParameterDiscovery True m1 message)
           | charging_status_req \<Rightarrow>
               handed_over expecting (process_message sec ChargingStatus True m1 message)
           | session_stop_req _ \<Rightarrow>
               handed_over expecting (process_message sec SessionStop True m1 message)
           | power_delivery_req req \<Rightarrow> PowerDelivery_own expecting m1 message req
           | _ \<Rightarrow> (Some (AttributeError ''sa_schedule_tuple_id''), expecting, m1)))"
| "process_message sec MeteringReceipt expecting m message =
     (case check_msg_v2 message
             [T_MeteringReceiptReq, T_ChargingStatusReq, T_CurrentDemandReq,
              T_PowerDeliveryReq]
             expecting m of
        (None, m1) \<Rightarrow> (None, expecting, m1)
      | (Some msg, m1) \<Rightarrow>
          (case body msg of
             power_delivery_req _ \<Rightarrow>
               handed_over expecting (process_message sec PowerDelivery True m1 message)
           | charging_status_req \<Rightarrow>
               handed_over expecting (process_message sec ChargingStatus True m1 message)
           | current_demand_req \<Rightarrow>
               handed_over expecting (process_message sec CurrentDemand True m1 message)
           | metering_receipt_req req \<Rightarrow>
               MeteringReceipt_own sec expecting m1 message msg req
           | _ \<Rightarrow> (Some (AttributeError ''id''), expecting, m1)))"
| "process_message sec CableCheck expecting m message =
     (Some (NotImplementedError ''CableCheck not yet implemented''), expecting, m)"
| "process_message sec PreCharge expecting m message =
     (Some (NotImplementedError ''PreCharge not yet implemented''), expecting, m)"
| "process_message sec ChargingStatus expecting m message =
     (case check_msg_v2 message
             [T_ChargingStatusReq, T_PowerDeliveryReq, T_MeteringReceiptReq]
             expecting m of
        (None, m1) \<Rightarrow> (None, expecting, m1)
      | (Some msg, m1) \<Rightarrow>
          (case body msg of
             power_delivery_req _ \<Rightarrow>
               handed_over expecting (process_message sec PowerDelivery True m1 message)
           | metering_receipt_req _ \<Rightarrow>
               handed_over expecting (process_message sec MeteringReceipt True m1 message)
           | _ \<Rightarrow> ChargingStatus_own expecting m1))"
| "process_message sec CurrentDemand expecting m message =
     (Some (NotImplementedError ''CurrentDemand not yet implemented''), expecting, m)"
| "process_message sec WeldingDetection expecting m message =
     (Some (NotImplementedError ''WeldingDetection not yet implemented''), expecting, m)"
| "process_message sec SessionStop expecting m message =
     (case check_msg_v2 message [T_SessionStopReq] True m of
        (None, m1) \<Rightarrow> (None, expecting, m1)
      | (Some msg, m1) \<Rightarrow>
          (case body msg of
             session_stop_req req \<Rightarrow> SessionStop_own expecting m1 req
           | _ \<Rightarrow> (Some (AttributeError ''charging_session''), expecting, m1)))"
| "process_message sec Terminate expecting m message = (None, expecting, m)"
  by pat_completeness auto
termination
  apply (relation "measure (\<lambda>(sec, cls, expecting, m, message).
           if msg_type_of message = own_type cls then 0 else (1::nat))")
  apply (auto dest!: check_msg_v2_Some [OF sym])
  done

section \<open>Observing the outcome of a call\<close>

text \<open>
  What a caller can see after \<^verbatim>\<open>process_message\<close>: the exception, the response in
  the output slot with its code, the next state, and whether the session was stopped
  with an unsuccessful \<^verbatim>\<open>StopNotification\<close>.
\<close>

definition raised :: "result \<Rightarrow> py_error option" where
  "raised r = fst r"

definition machine_of :: "result \<Rightarrow> machine" where
  "machine_of r = snd (snd r)"

definition emitted :: "result \<Rightarrow> response option" where
  "emitted r = map_option payload (slot (machine_of r))"

definition emitted_code :: "result \<Rightarrow> ResponseCode option" where
  "emitted_code r = map_option response_code (emitted r)"

definition next_state_of :: "result \<Rightarrow> state_class option" where
  "next_state_of r = (case slot (machine_of r) of None \<Rightarrow> None | Some s \<Rightarrow> next_state s)"

definition stopped_abnormally :: "result \<Rightarrow> bool" where
  "stopped_abnormally r =
     (case stop_reason (session (machine_of r)) of
        None \<Rightarrow> False
      | Some (StopNotification successful _ _) \<Rightarrow> \<not> successful)"

text \<open>
  The state machine aborts with a response code: nothing is raised, the session is
  stopped abnormally, the next state is \<open>Terminate\<close> and the response is the failed
  response for the type of the request, carrying that code.
\<close>

definition aborts_with :: "result \<Rightarrow> msg_type \<Rightarrow> ResponseCode \<Rightarrow> bool" where
  "aborts_with r t code =
     (raised r = None \<and> stopped_abnormally r \<and> next_state_of r = Some Terminate
      \<and> emitted r = Some (FailedResponse (Some t) code))"

fun res_service_list :: "response \<Rightarrow> ServiceDetails list option" where
  "res_service_list (ServiceDiscoveryRes _ _ _ sl) = sl"
| "res_service_list _ = None"

section \<open>A concrete session\<close>

text \<open>
  A security environment, an EVSE controller and a session with one offered schedule
  (tuple id 1), on which the theorems below are instantiated.
\<close>

definition example_security :: security where
  "example_security =
     \<lparr>get_random_bytes = (\<lambda>n. replicate n 171),
      time_now = 0,
      to_exi = (\<lambda>_. []),
      verify_signature = (\<lambda>_ _ _ _. True),
      load_cert = (\<lambda>_. []),
      load_priv_key = (\<lambda>_. Inr []),
      encrypt_priv_key = (\<lambda>_ _. Inr ([], [])),
      create_signature = (\<lambda>_ _. []),
      verify_certs = (\<lambda>_ _ _. None),
      get_cert_cn = (\<lambda>_. '''')\<rparr>"

definition example_evse_controller :: evse_controller where
  "example_evse_controller =
     \<lparr>get_evse_id = ''UK123E1234'',
      get_supported_energy_transfer_modes = [DC_EXTENDED],
      get_ac_evse_charge_parameter =
        \<lparr>ac_evse_status = \<lparr>notification_max_delay = 0,
                            evse_notification = EVSENotification_NONE, rcd = False\<rparr>,
         evse_nominal_voltage = 230, evse_max_current = 32\<rparr>,
      get_dc_evse_charge_parameter =
        \<lparr>dc_evse_status = \<lparr>dc_notification_max_delay = 0,
                            dc_evse_notification = EVSENotification_NONE,
                            evse_isolation_status = Some VALID,
                            evse_status_code = EVSE_READY\<rparr>,
         evse_maximum_power_limit = 1000, evse_maximum_current_limit = 100,
         evse_maximum_voltage_limit = 400\<rparr>,
      get_sa_schedule_list =
        (\<lambda>_ _. [\<lparr>sa_schedule_tuple_id = 1, p_max_schedule = [], sales_tariff = None\<rparr>]),
      is_authorised = True,
      get_ac_evse_status = \<lparr>notification_max_delay = 0,
                             evse_notification = EVSENotification_NONE, rcd = False\<rparr>,
      get_dc_evse_status = \<lparr>dc_notification_max_delay = 0,
                             dc_evse_notification = EVSENotification_NONE,
                             evse_isolation_status = Some VALID,
                             evse_status_code = EVSE_READY\<rparr>\<rparr>"

definition example_session :: comm_session where
  "example_session =
     \<lparr>session_id = ''F9F9EE8505F55838'',
      evcc_id = '''',
      is_tls = True,
      selected_auth_option = None,
      offered_auth_options = [EIM_V2, PNC_V2],
      offered_services = [],
      offered_schedules =
        [\<lparr>sa_schedule_tuple_id = 1, p_max_schedule = [], sales_tariff = None\<rparr>],
      selected_energy_mode = Some DC_EXTENDED,
      selected_schedule = None,
      charge_progress_started = False,
      sent_meter_info = None,
      contract_cert_chain = None,
      stop_reason = None,
      peername = ''pytest'',
      config = \<lparr>supported_auth_options = [EIM, PNC], free_charging_service = False,
                allow_cert_install_service = True, free_cert_install_service = True\<rparr>,
      evse_controller = example_evse_controller\<rparr>"

definition example_machine :: machine where
  "example_machine = \<lparr>session = example_session, slot = None\<rparr>"

definition v2_message :: "string \<Rightarrow> Body \<Rightarrow> message" where
  "v2_message sid b =
     V2GMessageV2 \<lparr>header = \<lparr>header_session_id = sid, header_signature = None\<rparr>, body = b\<rparr>"

section \<open>The registry of failed responses\<close>

text \<open>
  \<^verbatim>\<open>failed_responses.py\<close> consists of an import block and three functions, each of
  which returns one dict literal. Whether building a registry succeeds is a matter of
  evaluating that literal in the module's namespace, so the literal is kept as Python
  wrote it: \<open>py_expr\<close> has the forms of expression the three functions use, under the
  names of the Python grammar, a keyword argument \<^verbatim>\<open>k=e\<close> of a call being
  \<open>Keyword k e\<close> among the arguments.
\<close>

datatype py_expr =
    Name string
  | Constant_str string
  | Constant_int int
  | Constant_bool bool
  | Attribute py_expr string
  | Call py_expr "py_expr list"
  | Keyword string py_expr
  | ListE "py_expr list"
  | TupleE "py_expr list"

text \<open>
  The values: strings, integers, truth values and byte strings, the object a global
  name or a built-in name is bound to, an attribute of such an object (the member of an
  enumeration), a bound method, the instance a class returns when called with its
  arguments, lists and tuples.
\<close>

datatype py_value =
    VStr string
  | VInt int
  | VBool bool
  | VBytes bytes
  | VGlobal string
  | VBuiltin string
  | VMember py_value string
  | VMethod py_value string
  | VInstance py_value "py_value list"
  | VKeyword string py_value
  | VList "py_value list"
  | VTuple "py_value list"

text \<open>
  The names the module binds: those of its import block, each under its alias if it has
  one, and those of its three functions, in the order of the source.
\<close>

definition module_globals :: "string list" where
  "module_globals =
     [''DCEVSEChargeParameter'', ''DCEVSEStatus'', ''DCEVSEStatusCode'',
      ''EVSENotification'', ''PVEVSECurrentRegulationTolerance'',
      ''PVEVSEEnergyToBeDelivered'', ''PVEVSEMaxCurrentLimit'', ''PVEVSEMaxPowerLimit'',
      ''PVEVSEMaxVoltageLimit'', ''PVEVSEMinCurrentLimit'', ''PVEVSEMinVoltageLimit'',
      ''PVEVSEPeakCurrentRipple'', ''PVEVSEPresentCurrent'', ''PVEVSEPresentVoltage'',
      ''CableCheckReqDINSPEC'', ''CableCheckResDINSPEC'',
      ''ChargeParameterDiscoveryReqDINSPEC'', ''ChargeParameterDiscoveryResDINSPEC'',
      ''ContractAuthenticationReqDINSPEC'', ''ContractAuthenticationResDINSPEC'',
      ''CurrentDemandReqDINPEC'', ''CurrentDemandResDINSPEC'', ''PowerDeliveryReqDINSPEC'',
      ''PowerDeliveryResDINSPEC'', ''PreChargeReqDINSPEC'', ''PreChargeResDINSPEC'',
      ''ServiceDiscoveryReqDINSPEC'', ''ServiceDiscoveryResDINSPEC'',
      ''ServicePaymentSelectionReqDINSPEC'', ''ServicePaymentSelectionResDINSPEC'',
      ''SessionSetupReqDINSPEC'', ''SessionSetupResDINSPEC'', ''SessionStopReqDINSPEC'',
      ''SessionStopResDINSPEC'', ''WeldingDetectionReqDINSPEC'',
      ''WeldingDetectionResDINSPEC'', ''AuthOptionListDINSPEC'', ''ChargeServiceDINSPEC'',
      ''DCEVSEStatusCodeDINSPEC'', ''EVSENotificationDINSPEC'', ''ResponseCodeDINSPEC'',
      ''ServiceCategoryDINSPEC'', ''ServiceDetailsDINSPEC'', ''ServiceIDDINSPEC'',
      ''AuthEnum'', ''EnergyTransferModeEnum'', ''EVSEProcessing'', ''IsolationLevel'',
      ''Namespace'', ''UnitSymbol'', ''ISOV20PayloadTypes'', ''EMAID'',
      ''AuthorizationReqV2'', ''AuthorizationResV2'', ''CableCheckReq'', ''CableCheckRes'',
      ''CertificateInstallationReqV2'', ''CertificateInstallationResV2'',
      ''CertificateUpdateReq'', ''CertificateUpdateRes'', ''ChargeParameterDiscoveryReq'',
      ''ChargeParameterDiscoveryRes'', ''ChargingStatusReq'', ''ChargingStatusRes'',
      ''CurrentDemandReq'', ''CurrentDemandRes'', ''MeteringReceiptReq'',
      ''MeteringReceiptRes'', ''PaymentDetailsReq'', ''PaymentDetailsRes'',
      ''PaymentServiceSelectionReq'', ''PaymentServiceSelectionRes'',
      ''PowerDeliveryReqV2'', ''PowerDeliveryResV2'', ''PreChargeReq'', ''PreChargeRes'',
      ''ServiceDetailReqV2'', ''ServiceDetailResV2'', ''ServiceDiscoveryReqV2'',
      ''ServiceDiscoveryResV2'', ''SessionSetupReqV2'', ''SessionSetupResV2'',
      ''SessionStopReqV2'', ''SessionStopResV2'', ''WeldingDetectionReqV2'',
      ''WeldingDetectionResV2'', ''ACEVSEStatus'', ''CertificateChainV2'',
      ''ChargeService'', ''DHPublicKey'', ''EncryptedPrivateKey'',
      ''EnergyTransferModeList'', ''ACChargeLoopReq'', ''ACChargeLoopRes'',
      ''ACChargeParameterDiscoveryReq'', ''ACChargeParameterDiscoveryRes'',
      ''ACChargeParameterDiscoveryResParams'', ''ScheduledACChargeLoopResParams'',
      ''AuthorizationReqV20'', ''AuthorizationResV20'', ''SubCertificates'',
      ''ServiceList'', ''AuthorizationSetupReq'', ''AuthorizationSetupRes'',
      ''CertificateChainV20'', ''CertificateInstallationReqV20'',
      ''CertificateInstallationResV20'', ''DynamicScheduleExchangeResParams'',
      ''ECDHCurve'', ''EIMAuthSetupResParams'', ''MeteringConfirmationReq'',
      ''MeteringConfirmationRes'', ''PowerDeliveryReqV20'', ''PowerDeliveryResV20'',
      ''PriceLevelSchedule'', ''PriceLevelScheduleEntryList'', ''ScheduleExchangeReq'',
      ''ScheduleExchangeRes'', ''Service'', ''ServiceDetailReqV20'',
      ''ServiceDetailResV20'', ''ServiceDiscoveryReqV20'', ''ServiceDiscoveryResV20'',
      ''ServiceParameterList'', ''ServiceSelectionReq'', ''ServiceSelectionRes'',
      ''SessionSetupReqV20'', ''SessionSetupResV20'', ''SessionStopReqV20'',
      ''SessionStopResV20'', ''SignedInstallationData'', ''MessageHeaderV20'',
      ''Processing'', ''RationalNumber'', ''ResponseCodeV20'',
      ''DCChargeParameterDiscoveryReq'', ''DCChargeParameterDiscoveryRes'',
      ''DCChargeParameterDiscoveryResParams'', ''init_failed_responses_din_spec_70121'',
      ''init_failed_responses_iso_v2'', ''init_failed_responses_iso_v20'']"

text \<open>The one built-in name the three functions use.\<close>

definition builtins :: "string list" where
  "builtins = [''bytes'']"

text \<open>
  A name is looked up among the local variables, then among the names of the module, then
  among the built-in names; a name bound nowhere raises \<^verbatim>\<open>NameError\<close>.
\<close>

definition lookup :: "(string \<times> py_value) list \<Rightarrow> string \<Rightarrow> py_error + py_value" where
  "lookup locals n =
     (case map_of locals n of
        Some v \<Rightarrow> Inr v
      | None \<Rightarrow>
          if n \<in> set module_globals then Inr (VGlobal n)
          else if n \<in> set builtins then Inr (VBuiltin n)
          else Inl (NameError n))"

text \<open>
  Modelled from the spec: the message classes and enumerations the module imports are
  not among the sources. An attribute of an imported object is taken to exist, and
  calling an imported class returns the instance with the arguments it was given; the
  validation a class performs on its arguments is outside the embedding.
  \<^verbatim>\<open>bytes(n)\<close>, \<^verbatim>\<open>bytes.hex()\<close> and \<^verbatim>\<open>str.upper()\<close> are Python's.
\<close>

fun get_attr :: "py_value \<Rightarrow> string \<Rightarrow> py_error + py_value" where
  "get_attr (VGlobal c) a = Inr (VMember (VGlobal c) a)"
| "get_attr (VBytes b) a =
     (if a = ''hex'' then Inr (VMethod (VBytes b) a) else Inl (AttributeError a))"
| "get_attr (VStr s) a =
     (if a = ''upper'' then Inr (VMethod (VStr s) a) else Inl (AttributeError a))"
| "get_attr _ a = Inl (AttributeError a)"

fun call :: "py_value \<Rightarrow> py_value list \<Rightarrow> py_error + py_value" where
  "call (VGlobal c) args = Inr (VInstance (VGlobal c) args)"
| "call (VBuiltin f) [VInt n] = Inr (VBytes (py_bytes (nat n)))"
| "call (VMethod (VBytes b) f) [] = Inr (VStr (py_hex b))"
| "call (VMethod (VStr s) f) [] = Inr (VStr (py_upper s))"
| "call _ _ = Inl (TypeError ''call'')"

text \<open>
  Evaluation, from left to right: the function of a call before its arguments, the
  elements of a list in their order. The first exception ends it.
\<close>

fun evaluate :: "(string \<times> py_value) list \<Rightarrow> py_expr \<Rightarrow> py_error + py_value"
  and evaluate_list ::
    "(string \<times> py_value) list \<Rightarrow> py_expr list \<Rightarrow> py_error + py_value list"
where
  "evaluate locals (Name n) = lookup locals n"
| "evaluate locals (Constant_str s) = Inr (VStr s)"
| "evaluate locals (Constant_int i) = Inr (VInt i)"
| "evaluate locals (Constant_bool b) = Inr (VBool b)"
| "evaluate locals (Attribute e a) =
     (case evaluate locals e of Inl err \<Rightarrow> Inl err | Inr v \<Rightarrow> get_attr v a)"
| "evaluate locals (Call f args) =
     (case evaluate locals f of
        Inl err \<Rightarrow> Inl err
      | Inr fv \<Rightarrow>
          (case evaluate_list locals args of Inl err \<Rightarrow> Inl err | Inr vs \<Rightarrow> call fv vs))"
| "evaluate locals (Keyword k e) =
     (case evaluate locals e of Inl err \<Rightarrow> Inl err | Inr v \<Rightarrow> Inr (VKeyword k v))"
| "evaluate locals (ListE es) =
     (case evaluate_list locals es of Inl err \<Rightarrow> Inl err | Inr vs \<Rightarrow> Inr (VList vs))"
| "evaluate locals (TupleE es) =
     (case evaluate_list locals es of Inl err \<Rightarrow> Inl err | Inr vs \<Rightarrow> Inr (VTuple vs))"
| "evaluate_list locals [] = Inr []"
| "evaluate_list locals (e # es) =
     (case evaluate locals e of
        Inl err \<Rightarrow> Inl err
      | Inr v \<Rightarrow>
          (case evaluate_list locals es of Inl err \<Rightarrow> Inl err | Inr vs \<Rightarrow> Inr (v # vs)))"

text \<open>
  A dict literal: for each item the key, then the value, item after item. The dict is
  the list of its items in the order of the literal.
\<close>

fun evaluate_items ::
  "(string \<times> py_value) list \<Rightarrow> (py_expr \<times> py_expr) list
    \<Rightarrow> py_error + (py_value \<times> py_value) list"
where
  "evaluate_items locals [] = Inr []"
| "evaluate_items locals ((k, v) # items) =
     (case evaluate locals k of
        Inl err \<Rightarrow> Inl err
      | Inr kv \<Rightarrow>
          (case evaluate locals v of
             Inl err \<Rightarrow> Inl err
           | Inr vv \<Rightarrow>
               (case evaluate_items locals items of
                  Inl err \<Rightarrow> Inl err
                | Inr d \<Rightarrow> Inr ((kv, vv) # d))))"

text \<open>
  The three functions of the module. \<open>f_items\<close> is the dict literal of the function
  \<open>f\<close>; \<^verbatim>\<open>init_failed_responses_iso_v20\<close> first binds the local variable
  \<^verbatim>\<open>header\<close>.
\<close>

definition init_failed_responses_din_spec_70121_items ::
  "(py_expr \<times> py_expr) list"
where
  "init_failed_responses_din_spec_70121_items =
     [(Name ''SessionSetupReqDINSPEC'',
       Call (Name ''SessionSetupResDINSPEC'')
         [Keyword ''response_code'' (Attribute (Name ''ResponseCodeDINSPEC'') ''FAILED''),
          Keyword ''evse_id'' (Constant_str ''1234567'')]),
      (Name ''ServiceDiscoveryReqDINSPEC'',
       Call (Name ''ServiceDiscoveryResDINSPEC'')
         [Keyword ''response_code'' (Attribute (Name ''ResponseCodeDINSPEC'') ''FAILED''),
          Keyword ''auth_option_list'' (Call (Name ''AuthOptionListDINSPEC'')
            [Keyword ''auth_options'' (ListE [Attribute (Name ''AuthEnum'') ''EIM_V2''])]),
          Keyword ''charge_service'' (Call (Name ''ChargeServiceDINSPEC'')
            [Keyword ''service_tag'' (Call (Name ''ServiceDetailsDINSPEC'')
               [Keyword ''service_id'' (Attribute (Name ''ServiceIDDINSPEC'') ''CHARGING''),
                Keyword ''service_category'' (Attribute (Name ''ServiceCategoryDINSPEC'') ''CHARGING'')]),
             Keyword ''free_service'' (Constant_bool False),
             Keyword ''energy_transfer_type'' (Attribute (Name ''EnergyTransferModeEnum'') ''DC_EXTENDED'')])]),
      (Name ''ServicePaymentSelectionReqDINSPEC'',
       Call (Name ''ServicePaymentSelectionResDINSPEC'')
         [Keyword ''response_code'' (Attribute (Name ''ResponseCodeDINSPEC'') ''FAILED'')]),
      (Name ''ContractAuthenticationReqDINSPEC'',
       Call (Name ''ContractAuthenticationResDINSPEC'')
         [Keyword ''response_code'' (Attribute (Name ''ResponseCodeDINSPEC'') ''FAILED''),
          Keyword ''evse_processing'' (Attribute (Name ''EVSEProcessing'') ''FINISHED'')]),
      (Name ''ChargeParameterDiscoveryReqDINSPEC'',
       Call (Name ''ChargeParameterDiscoveryResDINSPEC'')
         [Keyword ''response_code'' (Attribute (Name ''ResponseCodeDINSPEC'') ''FAILED''),
          Keyword ''evse_processing'' (Attribute (Name ''EVSEProcessing'') ''FINISHED''),
          Keyword ''dc_charge_parameter'' (Call (Name ''DCEVSEChargeParameter'')
            [Keyword ''dc_evse_status'' (Call (Name ''DCEVSEStatus'')
               [Keyword ''notification_max_delay'' (Constant_int 1000),
                Keyword ''evse_notification'' (Attribute (Name ''EVSENotificationDINSPEC'') ''STOP_CHARGING''),
                Keyword ''evse_isolation_status'' (Attribute (Name ''IsolationLevel'') ''INVALID''),
                Keyword ''evse_status_code'' (Attribute (Name ''DCEVSEStatusCodeDINSPEC'') ''EVSE_NOT_READY'')]),
             Keyword ''evse_maximum_power_limit'' (Call (Name ''PVEVSEMaxPowerLimit'')
               [Keyword ''multiplier'' (Constant_int 0),
                Keyword ''value'' (Constant_int 0),
                Keyword ''unit'' (Attribute (Name ''UnitSymbol'') ''WATT'')]),
             Keyword ''evse_maximum_current_limit'' (Call (Name ''PVEVSEMaxCurrentLimit'')
               [Keyword ''multiplier'' (Constant_int 0),
                Keyword ''value'' (Constant_int 0),
                Keyword ''unit'' (Attribute (Name ''UnitSymbol'') ''AMPERE'')]),
             Keyword ''evse_maximum_voltage_limit'' (Call (Name ''PVEVSEMaxVoltageLimit'')
               [Keyword ''multiplier'' (Constant_int 0),
                Keyword ''value'' (Constant_int 0),
                Keyword ''unit'' (Attribute (Name ''UnitSymbol'') ''VOLTAGE'')]),
             Keyword ''evse_minimum_current_limit'' (Call (Name ''PVEVSEMinCurrentLimit'')
               [Keyword ''multiplier'' (Constant_int 0),
                Keyword ''value'' (Constant_int 0),
                Keyword ''unit'' (Attribute (Name ''UnitSymbol'') ''AMPERE'')]),
             Keyword ''evse_minimum_voltage_limit'' (Call (Name ''PVEVSEMinVoltageLimit'')
               [Keyword ''multiplier'' (Constant_int 0),
                Keyword ''value'' (Constant_int 0),
                Keyword ''unit'' (Attribute (Name ''UnitSymbol'') ''VOLTAGE'')]),
             Keyword ''evse_current_regulation_tolerance'' (Call (Name ''PVEVSECurrentRegulationTolerance'')
               [Keyword ''multiplier'' (Constant_int 0),
                Keyword ''value'' (Constant_int 0),
                Keyword ''unit'' (Attribute (Name ''UnitSymbol'') ''AMPERE'')]),
             Keyword ''evse_peak_current_ripple'' (Call (Name ''PVEVSEPeakCurrentRipple'')
               [Keyword ''multiplier'' (Constant_int 0),
                Keyword ''value'' (Constant_int 0),
                Keyword ''unit'' (Attribute (Name ''UnitSymbol'') ''AMPERE'')]),
             Keyword ''evse_energy_to_be_delivered'' (Call (Name ''PVEVSEEnergyToBeDelivered'')
               [Keyword ''multiplier'' (Constant_int 0),
                Keyword ''value'' (Constant_int 0),
                Keyword ''unit'' (Attribute (Name ''UnitSymbol'') ''WATT_HOURS'')])])]),
      (Name ''CableCheckReqDINSPEC'',
       Call (Name ''CableCheckResDINSPEC'')
         [Keyword ''response_code'' (Attribute (Name ''ResponseCodeDINSPEC'') ''FAILED''),
          Keyword ''dc_evse_status'' (Call (Name ''DCEVSEStatus'')
            [Keyword ''notification_max_delay'' (Constant_int 1000),
             Keyword ''evse_notification'' (Attribute (Name ''EVSENotificationDINSPEC'') ''STOP_CHARGING''),
             Keyword ''evse_isolation_status'' (Attribute (Name ''IsolationLevel'') ''INVALID''),
             Keyword ''evse_status_code'' (Attribute (Name ''DCEVSEStatusCodeDINSPEC'') ''EVSE_NOT_READY'')]),
          Keyword ''evse_processing'' (Attribute (Name ''EVSEProcessing'') ''FINISHED'')]),
      (Name ''PreChargeReqDINSPEC'',
       Call (Name ''PreChargeResDINSPEC'')
         [Keyword ''response_code'' (Attribute (Name ''ResponseCodeDINSPEC'') ''FAILED''),
          Keyword ''dc_evse_status'' (Call (Name ''DCEVSEStatus'')
            [Keyword ''notification_max_delay'' (Constant_int 1000),
             Keyword ''evse_notification'' (Attribute (Name ''EVSENotificationDINSPEC'') ''STOP_CHARGING''),
             Keyword ''evse_isolation_status'' (Attribute (Name ''IsolationLevel'') ''INVALID''),
             Keyword ''evse_status_code'' (Attribute (Name ''DCEVSEStatusCodeDINSPEC'') ''EVSE_NOT_READY'')]),
          Keyword ''evse_present_voltage'' (Call (Name ''PVEVSEPresentVoltage'')
            [Keyword ''multiplier'' (Constant_int 0),
             Keyword ''value'' (Constant_int 0),
             Keyword ''unit'' (Attribute (Name ''UnitSymbol'') ''VOLTAGE'')])]),
      (Name ''PowerDeliveryReqDINSPEC'',
       Call (Name ''PowerDeliveryResDINSPEC'')
         [Keyword ''response_code'' (Attribute (Name ''ResponseCodeDINSPEC'') ''FAILED''),
          Keyword ''dc_evse_status'' (Call (Name ''DCEVSEStatus'')
            [Keyword ''notification_max_delay'' (Constant_int 1000),
             Keyword ''evse_notification'' (Attribute (Name ''EVSENotificationDINSPEC'') ''STOP_CHARGING''),
             Keyword ''evse_isolation_status'' (Attribute (Name ''IsolationLevel'') ''INVALID''),
             Keyword ''evse_status_code'' (Attribute (Name ''DCEVSEStatusCodeDINSPEC'') ''EVSE_NOT_READY'')])]),
      (Name ''CurrentDemandReqDINPEC'',
       Call (Name ''CurrentDemandResDINSPEC'')
         [Keyword ''response_code'' (Attribute (Name ''ResponseCodeDINSPEC'') ''FAILED''),
          Keyword ''dc_evse_status'' (Call (Name ''DCEVSEStatus'')
            [Keyword ''notification_max_delay'' (Constant_int 1000),
             Keyword ''evse_notification'' (Attribute (Name ''EVSENotificationDINSPEC'') ''STOP_CHARGING''),
             Keyword ''evse_isolation_status'' (Attribute (Name ''IsolationLevel'') ''INVALID''),
             Keyword ''evse_status_code'' (Attribute (Name ''DCEVSEStatusCodeDINSPEC'') ''EVSE_NOT_READY'')]),
          Keyword ''evse_present_voltage'' (Call (Name ''PVEVSEPresentVoltage'')
            [Keyword ''multiplier'' (Constant_int 0),
             Keyword ''value'' (Constant_int 0),
             Keyword ''unit'' (Attribute (Name ''UnitSymbol'') ''VOLTAGE'')]),
          Keyword ''evse_present_current'' (Call (Name ''PVEVSEPresentCurrent'')
            [Keyword ''multiplier'' (Constant_int 0),
             Keyword ''value'' (Constant_int 0),
             Keyword ''unit'' (Attribute (Name ''UnitSymbol'') ''AMPERE'')]),
          Keyword ''evse_current_limit_achieved'' (Constant_bool False),
          Keyword ''evse_voltage_limit_achieved'' (Constant_bool False),
          Keyword ''evse_power_limit_achieved'' (Constant_bool False),
          Keyword ''evse_max_voltage_limit'' (Call (Name ''PVEVSEMaxVoltageLimit'')
            [Keyword ''multiplier'' (Constant_int 0),
             Keyword ''value'' (Constant_int 0),
             Keyword ''unit'' (Attribute (Name ''UnitSymbol'') ''VOLTAGE'')]),
          Keyword ''evse_max_current_limit'' (Call (Name ''PVEVSEMaxCurrentLimit'')
            [Keyword ''multiplier'' (Constant_int 0),
             Keyword ''value'' (Constant_int 0),
             Keyword ''unit'' (Attribute (Name ''UnitSymbol'') ''AMPERE'')]),
          Keyword ''evse_max_power_limit'' (Call (Name ''PVEVSEMaxPowerLimit'')
            [Keyword ''multiplier'' (Constant_int 0),
             Keyword ''value'' (Constant_int 0),
             Keyword ''unit'' (Attribute (Name ''UnitSymbol'') ''WATT'')])]),
      (Name ''WeldingDetectionReqDINSPEC'',
       Call (Name ''WeldingDetectionResDINSPEC'')
         [Keyword ''response_code'' (Attribute (Name ''ResponseCodeDINSPEC'') ''FAILED''),
          Keyword ''dc_evse_status'' (Call (Name ''DCEVSEStatus'')
            [Keyword ''notification_max_delay'' (Constant_int 1000),
             Keyword ''evse_notification'' (Attribute (Name ''EVSENotificationDINSPEC'') ''STOP_CHARGING''),
             Keyword ''evse_isolation_status'' (Attribute (Name ''IsolationLevel'') ''INVALID''),
             Keyword ''evse_status_code'' (Attribute (Name ''DCEVSEStatusCodeDINSPEC'') ''EVSE_NOT_READY'')]),
          Keyword ''evse_present_voltage'' (Call (Name ''PVEVSEPresentVoltage'')
            [Keyword ''multiplier'' (Constant_int 0),
             Keyword ''value'' (Constant_int 0),
             Keyword ''unit'' (Attribute (Name ''UnitSymbol'') ''VOLTAGE'')])]),
      (Name ''SessionStopReqDINSPEC'',
       Call (Name ''SessionStopResDINSPEC'')
         [Keyword ''response_code'' (Attribute (Name ''ResponseCodeDINSPEC'') ''FAILED'')])]"

definition init_failed_responses_din_spec_70121 ::
  "py_error + (py_value \<times> py_value) list"
where
  "init_failed_responses_din_spec_70121 = evaluate_items [] init_failed_responses_din_spec_70121_items"

definition init_failed_responses_iso_v2_items :: "(py_expr \<times> py_expr) list" where
  "init_failed_responses_iso_v2_items =
     [(Name ''SessionSetupReqV2'',
       Call (Name ''SessionSetupResV2'')
         [Keyword ''response_code'' (Attribute (Name ''ResponseCodeV2'') ''FAILED''),
          Keyword ''evse_id'' (Constant_str ''1234567'')]),
      (Name ''ServiceDiscoveryReqV2'',
       Call (Name ''ServiceDiscoveryResV2'')
         [Keyword ''response_code'' (Attribute (Name ''ResponseCodeV2'') ''FAILED''),
          Keyword ''auth_option_list'' (Call (Name ''AuthOptionList'')
            [Keyword ''auth_options'' (ListE [Attribute (Name ''AuthEnum'') ''EIM_V2''])]),
          Keyword ''charge_service'' (Call (Name ''ChargeService'')
            [Keyword ''service_id'' (Attribute (Name ''ServiceID'') ''CHARGING''),
             Keyword ''service_category'' (Attribute (Name ''ServiceCategory'') ''CHARGING''),
             Keyword ''free_service'' (Constant_bool False),
             Keyword ''supported_energy_transfer_mode'' (Call (Name ''EnergyTransferModeList'')
               [Keyword ''energy_modes'' (ListE [Attribute (Name ''EnergyTransferModeEnum'') ''DC_CORE''])])])]),
      (Name ''ServiceDetailReqV2'',
       Call (Name ''ServiceDetailResV2'')
         [Keyword ''response_code'' (Attribute (Name ''ResponseCodeV2'') ''FAILED''),
          Keyword ''service_id'' (Constant_int 0)]),
      (Name ''PaymentServiceSelectionReq'',
       Call (Name ''PaymentServiceSelectionRes'')
         [Keyword ''response_code'' (Attribute (Name ''ResponseCodeV2'') ''FAILED'')]),
      (Name ''CertificateInstallationReqV2'',
       Call (Name ''CertificateInstallationResV2'')
         [Keyword ''response_code'' (Attribute (Name ''ResponseCodeV2'') ''FAILED''),
          Keyword ''cps_cert_chain'' (Call (Name ''CertificateChainV2'') [Keyword ''certificate'' (Call (Name ''bytes'') [Constant_int 0])]),
          Keyword ''contract_cert_chain'' (Call (Name ''CertificateChainV2'') [Keyword ''certificate'' (Call (Name ''bytes'') [Constant_int 0])]),
          Keyword ''encrypted_private_key'' (Call (Name ''EncryptedPrivateKey'')
            [Keyword ''id'' (Constant_str ''''),
             Keyword ''value'' (Call (Name ''bytes'') [Constant_int 0])]),
          Keyword ''dh_public_key'' (Call (Name ''DHPublicKey'')
            [Keyword ''id'' (Constant_str ''''),
             Keyword ''value'' (Call (Name ''bytes'') [Constant_int 0])]),
          Keyword ''emaid'' (Call (Name ''EMAID'') [Keyword ''value'' (Constant_str ''123456789ABCDE'')])]),
      (Name ''CertificateUpdateReq'',
       Call (Name ''CertificateUpdateRes'')
         [Keyword ''response_code'' (Attribute (Name ''ResponseCodeV2'') ''FAILED''),
          Keyword ''cps_cert_chain'' (Call (Name ''CertificateChainV2'') [Keyword ''certificate'' (Call (Name ''bytes'') [Constant_int 0])]),
          Keyword ''contract_cert_chain'' (Call (Name ''CertificateChainV2'') [Keyword ''certificate'' (Call (Name ''bytes'') [Constant_int 0])]),
          Keyword ''encrypted_private_key'' (Call (Name ''EncryptedPrivateKey'')
            [Keyword ''id'' (Constant_str ''''),
             Keyword ''value'' (Call (Name ''bytes'') [Constant_int 0])]),
          Keyword ''dh_public_key'' (Call (Name ''DHPublicKey'')
            [Keyword ''id'' (Constant_str ''''),
             Keyword ''value'' (Call (Name ''bytes'') [Constant_int 0])]),
          Keyword ''emaid'' (Call (Name ''EMAID'') [Keyword ''value'' (Constant_str ''123456789ABCDE'')])]),
      (Name ''PaymentDetailsReq'',
       Call (Name ''PaymentDetailsRes'')
         [Keyword ''response_code'' (Attribute (Name ''ResponseCodeV2'') ''FAILED''),
          Keyword ''gen_challenge'' (Call (Name ''bytes'') [Constant_int 16]),
          Keyword ''evse_timestamp'' (Constant_int 0)]),
      (Name ''AuthorizationReqV2'',
       Call (Name ''AuthorizationResV2'')
         [Keyword ''response_code'' (Attribute (Name ''ResponseCodeV2'') ''FAILED''),
          Keyword ''evse_processing'' (Attribute (Name ''EVSEProcessing'') ''FINISHED'')]),
      (Name ''ChargeParameterDiscoveryReq'',
       Call (Name ''ChargeParameterDiscoveryRes'')
         [Keyword ''response_code'' (Attribute (Name ''ResponseCodeV2'') ''FAILED''),
          Keyword ''evse_processing'' (Attribute (Name ''EVSEProcessing'') ''FINISHED'')]),
      (Name ''PowerDeliveryReqV2'',
       Call (Name ''PowerDeliveryResV2'')
         [Keyword ''response_code'' (Attribute (Name ''ResponseCodeV2'') ''FAILED'')]),
      (Name ''ChargingStatusReq'',
       Call (Name ''ChargingStatusRes'')
         [Keyword ''response_code'' (Attribute (Name ''ResponseCodeV2'') ''FAILED''),
          Keyword ''evse_id'' (Constant_str ''1234567''),
          Keyword ''sa_schedule_tuple_id'' (Constant_int 1),
          Keyword ''ac_evse_status'' (Call (Name ''ACEVSEStatus'')
            [Keyword ''notification_max_delay'' (Constant_int 0),
             Keyword ''evse_notification'' (Attribute (Name ''EVSENotification'') ''NONE''),
             Keyword ''rcd'' (Constant_bool False)])]),
      (Name ''CableCheckReq'',
       Call (Name ''CableCheckRes'')
         [Keyword ''response_code'' (Attribute (Name ''ResponseCodeV2'') ''FAILED''),
          Keyword ''dc_evse_status'' (Call (Name ''DCEVSEStatus'')
            [Keyword ''evse_notification'' (Attribute (Name ''EVSENotification'') ''NONE''),
             Keyword ''notification_max_delay'' (Constant_int 0),
             Keyword ''evse_isolation_status'' (Attribute (Name ''IsolationLevel'') ''VALID''),
             Keyword ''evse_status_code'' (Attribute (Name ''DCEVSEStatusCode'') ''EVSE_READY'')]),
          Keyword ''evse_processing'' (Attribute (Name ''EVSEProcessing'') ''FINISHED'')]),
      (Name ''PreChargeReq'',
       Call (Name ''PreChargeRes'')
         [Keyword ''response_code'' (Attribute (Name ''ResponseCodeV2'') ''FAILED''),
          Keyword ''dc_evse_status'' (Call (Name ''DCEVSEStatus'')
            [Keyword ''evse_notification'' (Attribute (Name ''EVSENotification'') ''NONE''),
             Keyword ''notification_max_delay'' (Constant_int 0),
             Keyword ''evse_isolation_status'' (Attribute (Name ''IsolationLevel'') ''VALID''),
             Keyword ''evse_status_code'' (Attribute (Name ''DCEVSEStatusCode'') ''EVSE_READY'')]),
          Keyword ''evse_present_voltage'' (Call (Name ''PVEVSEPresentVoltage'')
            [Keyword ''multiplier'' (Constant_int 0),
             Keyword ''value'' (Constant_int 230),
             Keyword ''unit'' (Constant_str ''V'')])]),
      (Name ''CurrentDemandReq'',
       Call (Name ''CurrentDemandRes'')
         [Keyword ''response_code'' (Attribute (Name ''ResponseCodeV2'') ''FAILED''),
          Keyword ''dc_evse_status'' (Call (Name ''DCEVSEStatus'')
            [Keyword ''evse_notification'' (Attribute (Name ''EVSENotification'') ''NONE''),
             Keyword ''notification_max_delay'' (Constant_int 0),
             Keyword ''evse_isolation_status'' (Attribute (Name ''IsolationLevel'') ''VALID''),
             Keyword ''evse_status_code'' (Attribute (Name ''DCEVSEStatusCode'') ''EVSE_READY'')]),
          Keyword ''evse_present_voltage'' (Call (Name ''PVEVSEPresentVoltage'')
            [Keyword ''multiplier'' (Constant_int 0),
             Keyword ''value'' (Constant_int 230),
             Keyword ''unit'' (Constant_str ''V'')]),
          Keyword ''evse_present_current'' (Call (Name ''PVEVSEPresentCurrent'')
            [Keyword ''multiplier'' (Constant_int 0),
             Keyword ''value'' (Constant_int 10),
             Keyword ''unit'' (Constant_str ''A'')]),
          Keyword ''evse_current_limit_achieved'' (Constant_bool False),
          Keyword ''evse_voltage_limit_achieved'' (Constant_bool False),
          Keyword ''evse_power_limit_achieved'' (Constant_bool False),
          Keyword ''evse_id'' (Constant_str ''1234567''),
          Keyword ''sa_schedule_tuple_id'' (Constant_int 1)]),
      (Name ''MeteringReceiptReq'',
       Call (Name ''MeteringReceiptRes'')
         [Keyword ''response_code'' (Attribute (Name ''ResponseCodeV2'') ''FAILED'')]),
      (Name ''WeldingDetectionReqV2'',
       Call (Name ''WeldingDetectionResV2'')
         [Keyword ''response_code'' (Attribute (Name ''ResponseCodeV2'') ''FAILED''),
          Keyword ''dc_evse_status'' (Call (Name ''DCEVSEStatus'')
            [Keyword ''evse_notification'' (Attribute (Name ''EVSENotification'') ''NONE''),
             Keyword ''notification_max_delay'' (Constant_int 0),
             Keyword ''evse_isolation_status'' (Attribute (Name ''IsolationLevel'') ''VALID''),
             Keyword ''evse_status_code'' (Attribute (Name ''DCEVSEStatusCode'') ''EVSE_READY'')]),
          Keyword ''evse_present_voltage'' (Call (Name ''PVEVSEPresentVoltage'')
            [Keyword ''multiplier'' (Constant_int 0),
             Keyword ''value'' (Constant_int 230),
             Keyword ''unit'' (Constant_str ''V'')])]),
      (Name ''SessionStopReqV2'',
       Call (Name ''SessionStopResV2'')
         [Keyword ''response_code'' (Attribute (Name ''ResponseCodeV2'') ''FAILED'')])]"

definition init_failed_responses_iso_v2 :: "py_error + (py_value \<times> py_value) list" where
  "init_failed_responses_iso_v2 = evaluate_items [] init_failed_responses_iso_v2_items"

definition init_failed_responses_iso_v20_items :: "(py_expr \<times> py_expr) list" where
  "init_failed_responses_iso_v20_items =
     [(Name ''SessionSetupReqV20'',
       TupleE
         [Call (Name ''SessionSetupResV20'')
            [Keyword ''header'' (Name ''header''),
             Keyword ''response_code'' (Attribute (Name ''ResponseCodeV20'') ''FAILED''),
             Keyword ''evse_id'' (Constant_str '''')],
          Attribute (Name ''Namespace'') ''ISO_V20_COMMON_MSG'',
          Attribute (Name ''ISOV20PayloadTypes'') ''MAINSTREAM'']),
      (Name ''AuthorizationReqV20'',
       TupleE
         [Call (Name ''AuthorizationResV20'')
            [Keyword ''header'' (Name ''header''),
             Keyword ''response_code'' (Attribute (Name ''ResponseCodeV20'') ''FAILED''),
             Keyword ''evse_processing'' (Attribute (Name ''Processing'') ''FINISHED'')],
          Attribute (Name ''Namespace'') ''ISO_V20_COMMON_MSG'',
          Attribute (Name ''ISOV20PayloadTypes'') ''MAINSTREAM'']),
      (Name ''AuthorizationSetupReq'',
       TupleE
         [Call (Name ''AuthorizationSetupRes'')
            [Keyword ''header'' (Name ''header''),
             Keyword ''response_code'' (Attribute (Name ''ResponseCodeV20'') ''FAILED''),
             Keyword ''auth_services'' (ListE [Attribute (Name ''AuthEnum'') ''EIM'']),
             Keyword ''cert_install_service'' (Constant_bool False),
             Keyword ''eim_as_res'' (Call (Name ''EIMAuthSetupResParams'') [])],
          Attribute (Name ''Namespace'') ''ISO_V20_COMMON_MSG'',
          Attribute (Name ''ISOV20PayloadTypes'') ''MAINSTREAM'']),
      (Name ''CertificateInstallationReqV20'',
       TupleE
         [Call (Name ''CertificateInstallationResV20'')
            [Keyword ''header'' (Name ''header''),
             Keyword ''response_code'' (Attribute (Name ''ResponseCodeV20'') ''FAILED''),
             Keyword ''evse_processing'' (Attribute (Name ''Processing'') ''FINISHED''),
             Keyword ''cps_certificate_chain'' (Call (Name ''CertificateChainV20'') [Keyword ''certificate'' (Call (Name ''bytes'') [Constant_int 0])]),
             Keyword ''signed_installation_data'' (Call (Name ''SignedInstallationData'')
               [Keyword ''contract_cert_chain'' (Call (Name ''CertificateChainV20'')
                  [Keyword ''certificate'' (Call (Name ''bytes'') [Constant_int 0]),
                   Keyword ''sub_certificates'' (Call (Name ''SubCertificates'')
                     [Keyword ''certificates'' (ListE [Call (Name ''bytes'') [Constant_int 0]])])]),
                Keyword ''ecdh_curve'' (Attribute (Name ''ECDHCurve'') ''x448''),
                Keyword ''dh_public_key'' (Call (Name ''bytes'') [Constant_int 0]),
                Keyword ''x448_encrypted_private_key'' (Call (Name ''bytes'') [Constant_int 84]),
                Keyword ''id'' (Constant_str '''')]),
             Keyword ''remaining_contract_cert_chains'' (Constant_int 0)],
          Attribute (Name ''Namespace'') ''ISO_V20_COMMON_MSG'',
          Attribute (Name ''ISOV20PayloadTypes'') ''MAINSTREAM'']),
      (Name ''ServiceDiscoveryReqV20'',
       TupleE
         [Call (Name ''ServiceDiscoveryResV20'')
            [Keyword ''header'' (Name ''header''),
             Keyword ''response_code'' (Attribute (Name ''ResponseCodeV20'') ''FAILED''),
             Keyword ''service_renegotiation_supported'' (Constant_bool False),
             Keyword ''energy_service_list'' (Call (Name ''ServiceList'')
               [Keyword ''services'' (ListE
                  [Call (Name ''Service'')
                     [Keyword ''service_id'' (Constant_int 0),
                      Keyword ''free_service'' (Constant_bool False)]])])],
          Attribute (Name ''Namespace'') ''ISO_V20_COMMON_MSG'',
          Attribute (Name ''ISOV20PayloadTypes'') ''MAINSTREAM'']),
      (Name ''ServiceDetailReqV20'',
       TupleE
         [Call (Name ''ServiceDetailResV20'')
            [Keyword ''header'' (Name ''header''),
             Keyword ''response_code'' (Attribute (Name ''ResponseCodeV20'') ''FAILED''),
             Keyword ''service_id'' (Constant_int 0),
             Keyword ''service_parameter_list'' (Call (Name ''ServiceParameterList'') [Keyword ''parameter_sets'' (ListE [])])],
          Attribute (Name ''Namespace'') ''ISO_V20_COMMON_MSG'',
          Attribute (Name ''ISOV20PayloadTypes'') ''MAINSTREAM'']),
      (Name ''ServiceSelectionReq'',
       TupleE
         [Call (Name ''ServiceSelectionRes'')
            [Keyword ''header'' (Name ''header''),
             Keyword ''response_code'' (Attribute (Name ''ResponseCodeV20'') ''FAILED'')],
          Attribute (Name ''Namespace'') ''ISO_V20_COMMON_MSG'',
          Attribute (Name ''ISOV20PayloadTypes'') ''MAINSTREAM'']),
      (Name ''ACChargeParameterDiscoveryReq'',
       TupleE
         [Call (Name ''ACChargeParameterDiscoveryRes'')
            [Keyword ''header'' (Name ''header''),
             Keyword ''response_code'' (Attribute (Name ''ResponseCodeV20'') ''FAILED''),
             Keyword ''ac_params'' (Call (Name ''ACChargeParameterDiscoveryResParams'')
               [Keyword ''evse_max_charge_power'' (Call (Name ''RationalNumber'')
                  [Keyword ''exponent'' (Constant_int 0),
                   Keyword ''value'' (Constant_int 0)]),
                Keyword ''evse_min_charge_power'' (Call (Name ''RationalNumber'')
                  [Keyword ''exponent'' (Constant_int 0),
                   Keyword ''value'' (Constant_int 0)]),
                Keyword ''evse_nominal_frequency'' (Call (Name ''RationalNumber'')
                  [Keyword ''exponent'' (Constant_int 0),
                   Keyword ''value'' (Constant_int 0)])])],
          Attribute (Name ''Namespace'') ''ISO_V20_AC'',
          Attribute (Name ''ISOV20PayloadTypes'') ''AC_MAINSTREAM'']),
      (Name ''DCChargeParameterDiscoveryReq'',
       TupleE
         [Call (Name ''DCChargeParameterDiscoveryRes'')
            [Keyword ''header'' (Name ''header''),
             Keyword ''response_code'' (Attribute (Name ''ResponseCodeV20'') ''FAILED''),
             Keyword ''dc_params'' (Call (Name ''DCChargeParameterDiscoveryResParams'')
               [Keyword ''evse_max_charge_power'' (Call (Name ''RationalNumber'')
                  [Keyword ''exponent'' (Constant_int 0),
                   Keyword ''value'' (Constant_int 0)]),
                Keyword ''evse_min_charge_power'' (Call (Name ''RationalNumber'')
                  [Keyword ''exponent'' (Constant_int 0),
                   Keyword ''value'' (Constant_int 0)]),
                Keyword ''evse_max_charge_current'' (Call (Name ''RationalNumber'')
                  [Keyword ''exponent'' (Constant_int 0),
                   Keyword ''value'' (Constant_int 0)]),
                Keyword ''evse_min_charge_current'' (Call (Name ''RationalNumber'')
                  [Keyword ''exponent'' (Constant_int 0),
                   Keyword ''value'' (Constant_int 0)]),
                Keyword ''evse_max_voltage'' (Call (Name ''RationalNumber'')
                  [Keyword ''exponent'' (Constant_int 0),
                   Keyword ''value'' (Constant_int 0)]),
                Keyword ''evse_min_voltage'' (Call (Name ''RationalNumber'')
                  [Keyword ''exponent'' (Constant_int 0),
                   Keyword ''value'' (Constant_int 0)])])],
          Attribute (Name ''Namespace'') ''ISO_V20_DC'',
          Attribute (Name ''ISOV20PayloadTypes'') ''DC_MAINSTREAM'']),
      (Name ''ScheduleExchangeReq'',
       TupleE
         [Call (Name ''ScheduleExchangeRes'')
            [Keyword ''header'' (Name ''header''),
             Keyword ''response_code'' (Attribute (Name ''ResponseCodeV20'') ''FAILED''),
             Keyword ''evse_processing'' (Attribute (Name ''Processing'') ''ONGOING''),
             Keyword ''dynamic_params'' (Call (Name ''DynamicScheduleExchangeResParams'')
               [Keyword ''price_level_schedule'' (Call (Name ''PriceLevelSchedule'')
                  [Keyword ''time_anchor'' (Constant_int 0),
                   Keyword ''schedule_id'' (Constant_int 1),
                   Keyword ''num_price_levels'' (Constant_int 0),
                   Keyword ''schedule_entries'' (Call (Name ''PriceLevelScheduleEntryList'') [Keyword ''entries'' (ListE [])])])])],
          Attribute (Name ''Namespace'') ''ISO_V20_COMMON_MSG'',
          Attribute (Name ''ISOV20PayloadTypes'') ''MAINSTREAM'']),
      (Name ''PowerDeliveryReqV20'',
       TupleE
         [Call (Name ''PowerDeliveryResV20'')
            [Keyword ''header'' (Name ''header''),
             Keyword ''response_code'' (Attribute (Name ''ResponseCodeV20'') ''FAILED'')],
          Attribute (Name ''Namespace'') ''ISO_V20_COMMON_MSG'',
          Attribute (Name ''ISOV20PayloadTypes'') ''MAINSTREAM'']),
      (Name ''ACChargeLoopReq'',
       TupleE
         [Call (Name ''ACChargeLoopRes'')
            [Keyword ''header'' (Name ''header''),
             Keyword ''response_code'' (Attribute (Name ''ResponseCodeV20'') ''FAILED''),
             Keyword ''scheduled_ac_charge_loop_res'' (Call (Name ''ScheduledACChargeLoopResParams'') [])],
          Attribute (Name ''Namespace'') ''ISO_V20_AC'',
          Attribute (Name ''ISOV20PayloadTypes'') ''AC_MAINSTREAM'']),
      (Name ''MeteringConfirmationReq'',
       TupleE
         [Call (Name ''MeteringConfirmationRes'')
            [Keyword ''header'' (Name ''header''),
             Keyword ''response_code'' (Attribute (Name ''ResponseCodeV20'') ''FAILED'')],
          Attribute (Name ''Namespace'') ''ISO_V20_COMMON_MSG'',
          Attribute (Name ''ISOV20PayloadTypes'') ''MAINSTREAM'']),
      (Name ''SessionStopReqV20'',
       TupleE
         [Call (Name ''SessionStopResV20'')
            [Keyword ''header'' (Name ''header''),
             Keyword ''response_code'' (Attribute (Name ''ResponseCodeV20'') ''FAILED'')],
          Attribute (Name ''Namespace'') ''ISO_V20_COMMON_MSG'',
          Attribute (Name ''ISOV20PayloadTypes'') ''MAINSTREAM''])]"

definition init_failed_responses_iso_v20_header :: py_expr where
  "init_failed_responses_iso_v20_header =
     Call (Name ''MessageHeaderV20'')
       [Keyword ''session_id'' (Call (Attribute (Call (Attribute (Call (Name ''bytes'') [Constant_int 1]) ''hex'') []) ''upper'') []),
        Keyword ''timestamp'' (Constant_int 1)]"

definition init_failed_responses_iso_v20 :: "py_error + (py_value \<times> py_value) list" where
  "init_failed_responses_iso_v20 =
     (case evaluate [] init_failed_responses_iso_v20_header of
        Inl e \<Rightarrow> Inl e
      | Inr header_value \<Rightarrow>
          evaluate_items [(''header'', header_value)] init_failed_responses_iso_v20_items)"

text \<open>What a registry entry tells about itself: the response code its value was built with.\<close>

fun keyword_arg :: "string \<Rightarrow> py_value list \<Rightarrow> py_value option" where
  "keyword_arg k [] = None"
| "keyword_arg k (VKeyword k' v # args) = (if k' = k then Some v else keyword_arg k args)"
| "keyword_arg k (_ # args) = keyword_arg k args"

fun response_code_of :: "py_value \<Rightarrow> py_value option" where
  "response_code_of (VInstance c args) = keyword_arg ''response_code'' args"
| "response_code_of _ = None"

text \<open>
  The shape of an entry of the ISO 15118-20 registry: a triple of a response with the
  response code \<open>FAILED\<close>, a member of \<^verbatim>\<open>Namespace\<close> and a member of
  \<^verbatim>\<open>ISOV20PayloadTypes\<close>.
\<close>

fun is_failed_triple :: "py_value \<Rightarrow> bool" where
  "is_failed_triple (VTuple [r, VMember (VGlobal ns) a, VMember (VGlobal pt) b]) =
     (response_code_of r = Some (VMember (VGlobal ''ResponseCodeV20'') ''FAILED'')
      \<and> ns = ''Namespace'' \<and> pt = ''ISOV20PayloadTypes'')"
| "is_failed_triple _ = False"

section \<open>Properties of the states\<close>

subsection \<open>Auxiliary facts\<close>

text \<open>A request of an accepted type passes the initial check and leaves the session as it is.\<close>

lemma check_msg_v2_accept:
  "type_of_body (body msg) \<in> set (if e then take 1 ts else ts) \<Longrightarrow>
   check_msg_v2 (V2GMessageV2 msg) ts e m = (Some msg, m)"
  by (simp add: check_msg_v2_def)

text \<open>A state that receives the request it is named after processes it itself.\<close>

lemma SessionSetup_req:
  "body msg = session_setup_req req \<Longrightarrow>
   process_message sec SessionSetup e m (V2GMessageV2 msg) = SessionSetup_own sec e m msg req"
  by (simp add: check_msg_v2_accept)

lemma ServiceDiscovery_req:
  "body msg = service_discovery_req req \<Longrightarrow>
   process_message sec ServiceDiscovery e m (V2GMessageV2 msg) = ServiceDiscovery_own e m req"
  by (simp add: check_msg_v2_accept)

lemma PaymentServiceSelection_req:
  "body msg = payment_service_selection_req req \<Longrightarrow>
   process_message sec PaymentServiceSelection e m (V2GMessageV2 msg)
     = PaymentServiceSelection_own e m (V2GMessageV2 msg) req"
  by (simp add: check_msg_v2_accept)

lemma ChargeParameterDiscovery_req:
  "body msg = charge_parameter_discovery_req req \<Longrightarrow>
   process_message sec ChargeParameterDiscovery e m (V2GMessageV2 msg)
     = ChargeParameterDiscovery_own sec e m (V2GMessageV2 msg) req"
  by (simp add: check_msg_v2_accept)

lemma PowerDelivery_req:
  "body msg = power_delivery_req req \<Longrightarrow>
   process_message sec PowerDelivery e m (V2GMessageV2 msg)
     = PowerDelivery_own e m (V2GMessageV2 msg) req"
  by (simp add: check_msg_v2_accept)

lemma MeteringReceipt_req:
  "body msg = metering_receipt_req req \<Longrightarrow>
   process_message sec MeteringReceipt e m (V2GMessageV2 msg)
     = MeteringReceipt_own sec e m (V2GMessageV2 msg) msg req"
  by (simp add: check_msg_v2_accept)

declare process_message.simps [simp del]

text \<open>What \<open>stop_state_machine\<close> leaves behind is an abort with the code it was given.\<close>

lemma aborts_with_stop:
  "body msg = b \<Longrightarrow>
   aborts_with (None, e, stop_state_machine reason (V2GMessageV2 msg) code m) t code'
     = (t = type_of_body b \<and> code' = code)"
  by (auto simp: aborts_with_def raised_def stopped_abnormally_def next_state_of_def emitted_def
      machine_of_def stop_state_machine_def create_next_message_def)

lemma stop_keeps_session:
  "session (stop_state_machine reason message code m)
     = (session m)\<lparr>stop_reason := Some (StopNotification False reason (peername (session m)))\<rparr>"
  by (simp add: stop_state_machine_def create_next_message_def)

lemma py_hex_Suc_0: "py_hex (py_bytes (Suc 0)) = ''00''"
  by (simp add: py_bytes_def hexdigit_def)

lemma py_hex_1: "py_hex (py_bytes 1) = ''00''"
  by (simp add: py_hex_Suc_0)

lemma replicate_8: "replicate 8 x = [x, x, x, x, x, x, x, x]"
  by (simp add: eval_nat_numeral)

lemma py_hex_8: "py_hex (py_bytes 8) = ''0000000000000000''"
  by (simp add: py_bytes_def hexdigit_def replicate_8)

subsection \<open>SessionSetup: the session id\<close>

text \<open>
  The random source of the concrete environment returns the byte \<open>0xAB\<close> throughout, so
  the session id it generates is \<open>ABABABABABABABAB\<close>.
\<close>

lemma fresh_example:
  "py_upper (py_hex (get_random_bytes example_security 8)) = ''ABABABABABABABAB''"
  by code_simp

text \<open>
  Claim C1, amended: for every \<^verbatim>\<open>SessionSetupReq\<close> processed by the state
  \<open>SessionSetup\<close>, nothing is raised and the next state is \<open>ServiceDiscovery\<close>. If the
  header's session id is the one-byte zero id \<open>00\<close> (\<^verbatim>\<open>bytes(1).hex()\<close>), the response
  code is \<open>OK_NEW_SESSION_ESTABLISHED\<close> and a freshly generated session id is stored;
  otherwise, if it equals the session's current id, the response code is
  \<open>OK_OLD_SESSION_JOINED\<close> and the stored id is kept; otherwise a fresh id is stored
  and the response code is \<open>OK_NEW_SESSION_ESTABLISHED\<close>.
\<close>

theorem session_setup_session_id:
  assumes "body msg = session_setup_req req"
  shows "let r = process_message sec SessionSetup e m (V2GMessageV2 msg);
             fresh = py_upper (py_hex (get_random_bytes sec 8));
             hid = header_session_id (header msg);
             sid = session_id (session m)
         in raised r = None \<and> next_state_of r = Some ServiceDiscovery \<and>
            (if hid = ''00''
             then emitted_code r = Some OK_NEW_SESSION_ESTABLISHED
                  \<and> session_id (session (machine_of r)) = fresh
             else if hid = sid
             then emitted_code r = Some OK_OLD_SESSION_JOINED
                  \<and> session_id (session (machine_of r)) = sid
             else emitted_code r = Some OK_NEW_SESSION_ESTABLISHED
                  \<and> session_id (session (machine_of r)) = fresh)"
proof -
  have r: "process_message sec SessionSetup e m (V2GMessageV2 msg)
             = SessionSetup_own sec e m msg req"
    using assms by (rule SessionSetup_req)
  show ?thesis
    unfolding r
    by (simp add: SessionSetup_own_def py_hex_1 py_hex_Suc_0 Let_def raised_def next_state_of_def
        emitted_code_def emitted_def machine_of_def create_next_message_def)
qed

text \<open>
  The theorem on the concrete session, whose id is \<open>F9F9EE8505F55838\<close>: a request
  with the one-byte zero id opens a new session, one with the session's id joins it.
\<close>

theorem session_setup_session_id_witness:
  "(let r = process_message example_security SessionSetup True example_machine
              (v2_message ''00'' (session_setup_req \<lparr>req_evcc_id = ''AABBCCDDEEFF''\<rparr>))
    in emitted_code r = Some OK_NEW_SESSION_ESTABLISHED
       \<and> session_id (session (machine_of r)) = ''ABABABABABABABAB'')
   \<and> (let r = process_message example_security SessionSetup True example_machine
                (v2_message ''F9F9EE8505F55838''
                   (session_setup_req \<lparr>req_evcc_id = ''AABBCCDDEEFF''\<rparr>))
      in emitted_code r = Some OK_OLD_SESSION_JOINED
         \<and> session_id (session (machine_of r)) = ''F9F9EE8505F55838'')"
  using session_setup_session_id
    [where msg = "\<lparr>header = \<lparr>header_session_id = ''00'', header_signature = None\<rparr>,
                     body = session_setup_req \<lparr>req_evcc_id = ''AABBCCDDEEFF''\<rparr>\<rparr>"
       and req = "\<lparr>req_evcc_id = ''AABBCCDDEEFF''\<rparr>"
       and m = example_machine and sec = example_security and e = True]
    session_setup_session_id
    [where msg = "\<lparr>header = \<lparr>header_session_id = ''F9F9EE8505F55838'',
                                header_signature = None\<rparr>,
                     body = session_setup_req \<lparr>req_evcc_id = ''AABBCCDDEEFF''\<rparr>\<rparr>"
       and req = "\<lparr>req_evcc_id = ''AABBCCDDEEFF''\<rparr>"
       and m = example_machine and sec = example_security and e = True]
  by (simp add: v2_message_def Let_def fresh_example example_machine_def example_session_def)

text \<open>
  Claim C1 as stated fails: the zero id the code looks for has one byte, not eight. A
  request whose header carries the 8-byte all-zero id \<open>0000000000000000\<close>, in a session
  whose current id is that same value, is answered with \<open>OK_OLD_SESSION_JOINED\<close>, and
  the stored id stays the all-zero one; no fresh id is generated.
\<close>

theorem session_setup_zero_id_joined:
  "py_hex (py_bytes 8) = ''0000000000000000''
   \<and> (let m = \<lparr>session = example_session\<lparr>session_id := ''0000000000000000''\<rparr>,
                slot = None\<rparr>;
           r = process_message example_security SessionSetup True m
                 (v2_message ''0000000000000000''
                    (session_setup_req \<lparr>req_evcc_id = ''AABBCCDDEEFF''\<rparr>))
       in emitted_code r = Some OK_OLD_SESSION_JOINED
          \<and> session_id (session (machine_of r)) = ''0000000000000000''
          \<and> py_upper (py_hex (get_random_bytes example_security 8))
               = ''ABABABABABABABAB'')"
proof -
  have "process_message example_security SessionSetup True
          \<lparr>session = example_session\<lparr>session_id := ''0000000000000000''\<rparr>, slot = None\<rparr>
          (v2_message ''0000000000000000''
             (session_setup_req \<lparr>req_evcc_id = ''AABBCCDDEEFF''\<rparr>))
        = SessionSetup_own example_security True
            \<lparr>session = example_session\<lparr>session_id := ''0000000000000000''\<rparr>, slot = None\<rparr>
            \<lparr>header = \<lparr>header_session_id = ''0000000000000000'', header_signature = None\<rparr>,
             body = session_setup_req \<lparr>req_evcc_id = ''AABBCCDDEEFF''\<rparr>\<rparr>
            \<lparr>req_evcc_id = ''AABBCCDDEEFF''\<rparr>"
    unfolding v2_message_def by (rule SessionSetup_req) simp
  then show ?thesis
    by (simp add: py_hex_8 fresh_example SessionSetup_own_def py_hex_1 py_hex_Suc_0 Let_def
        emitted_code_def emitted_def machine_of_def create_next_message_def)
qed

subsection \<open>The states without an implementation\<close>

text \<open>
  Claim C2 says that \<^verbatim>\<open>process_message\<close> never raises, in particular not in the
  states \<open>CableCheck\<close>, \<open>PreCharge\<close>, \<open>CurrentDemand\<close> and \<open>WeldingDetection\<close>. The
  code of these four states does the opposite: whatever the session and the message,
  \<^verbatim>\<open>process_message\<close> raises \<^verbatim>\<open>NotImplementedError\<close>, before any check of the
  message, so no failed response is queued and the session is not stopped.
\<close>

theorem stub_states_raise:
  "process_message sec CableCheck e m message
     = (Some (NotImplementedError ''CableCheck not yet implemented''), e, m)
   \<and> process_message sec PreCharge e m message
     = (Some (NotImplementedError ''PreCharge not yet implemented''), e, m)
   \<and> process_message sec CurrentDemand e m message
     = (Some (NotImplementedError ''CurrentDemand not yet implemented''), e, m)
   \<and> process_message sec WeldingDetection e m message
     = (Some (NotImplementedError ''WeldingDetection not yet implemented''), e, m)"
  by (simp add: process_message.simps)

subsection \<open>ChargeParameterDiscovery: the energy transfer mode\<close>

lemma ChargeParameterDiscovery_own_unsupported:
  "requested_energy_mode req
     \<notin> set (get_supported_energy_transfer_modes (evse_controller (session m))) \<Longrightarrow>
   ChargeParameterDiscovery_own sec e m message req
     = (None, e, stop_state_machine ''not offered as energy transfer mode'' message
                   FAILED_WRONG_ENERGY_TRANSFER_MODE m)"
  by (simp add: ChargeParameterDiscovery_own_def Let_def)

lemma ChargeParameterDiscovery_own_supported:
  "requested_energy_mode req
     \<in> set (get_supported_energy_transfer_modes (evse_controller (session m))) \<Longrightarrow>
   selected_energy_mode (session (machine_of (ChargeParameterDiscovery_own sec e m message req)))
     = Some (requested_energy_mode req)"
  by (simp add: ChargeParameterDiscovery_own_def Let_def machine_of_def create_next_message_def
      split: option.splits sum.splits py_error.splits list.splits prod.splits)

text \<open>
  Claim C4: for every \<^verbatim>\<open>ChargeParameterDiscoveryReq\<close> processed by the state
  \<open>ChargeParameterDiscovery\<close> whose \<^verbatim>\<open>requested_energy_mode\<close> is not among the
  energy transfer modes the EVSE controller supports, the state machine aborts with the
  response code \<open>FAILED_WRONG_ENERGY_TRANSFER_MODE\<close> and the session's
  \<^verbatim>\<open>selected_energy_mode\<close> is what it was; when the mode is supported,
  \<^verbatim>\<open>selected_energy_mode\<close> is set to the requested mode.
\<close>

theorem charge_parameter_discovery_energy_mode:
  assumes "body msg = charge_parameter_discovery_req req"
  shows "let r = process_message sec ChargeParameterDiscovery e m (V2GMessageV2 msg);
             supported = get_supported_energy_transfer_modes (evse_controller (session m))
         in if requested_energy_mode req \<in> set supported
            then selected_energy_mode (session (machine_of r))
                   = Some (requested_energy_mode req)
            else aborts_with r T_ChargeParameterDiscoveryReq FAILED_WRONG_ENERGY_TRANSFER_MODE
                 \<and> selected_energy_mode (session (machine_of r))
                      = selected_energy_mode (session m)"
proof -
  have r: "process_message sec ChargeParameterDiscovery e m (V2GMessageV2 msg)
             = ChargeParameterDiscovery_own sec e m (V2GMessageV2 msg) req"
    using assms by (rule ChargeParameterDiscovery_req)
  show ?thesis
  proof (cases "requested_energy_mode req
                  \<in> set (get_supported_energy_transfer_modes (evse_controller (session m)))")
    case True
    then show ?thesis
      unfolding r Let_def by (simp add: ChargeParameterDiscovery_own_supported)
  next
    case False
    then show ?thesis
      unfolding r Let_def using assms
      by (simp add: ChargeParameterDiscovery_own_unsupported aborts_with_stop machine_of_def
          stop_keeps_session)
  qed
qed

text \<open>
  The theorem on the concrete session, whose controller supports \<open>DC_EXTENDED\<close> only
  and whose selected mode is \<open>DC_EXTENDED\<close>: a request for \<open>AC_THREE_PHASE_CORE\<close>
  aborts and leaves the selected mode, a request for \<open>DC_EXTENDED\<close> in a session with
  no mode selected yet selects it.
\<close>

theorem charge_parameter_discovery_energy_mode_witness:
  "(let r = process_message example_security ChargeParameterDiscovery True example_machine
              (v2_message ''F9F9EE8505F55838''
                 (charge_parameter_discovery_req
                    \<lparr>max_entries_sa_schedule_tuple = None,
                     requested_energy_mode = AC_THREE_PHASE_CORE,
                     ac_ev_charge_parameter = Some \<lparr>departure_time = None\<rparr>,
                     dc_ev_charge_parameter = None\<rparr>))
    in aborts_with r T_ChargeParameterDiscoveryReq FAILED_WRONG_ENERGY_TRANSFER_MODE
       \<and> selected_energy_mode (session (machine_of r)) = Some DC_EXTENDED)
   \<and> (let m = \<lparr>session = example_session\<lparr>selected_energy_mode := None\<rparr>, slot = None\<rparr>;
           r = process_message example_security ChargeParameterDiscovery True m
                 (v2_message ''F9F9EE8505F55838''
                    (charge_parameter_discovery_req
                       \<lparr>max_entries_sa_schedule_tuple = None,
                        requested_energy_mode = DC_EXTENDED,
                        ac_ev_charge_parameter = None,
                        dc_ev_charge_parameter = Some \<lparr>departure_time = None\<rparr>\<rparr>))
       in selected_energy_mode (session (machine_of r)) = Some DC_EXTENDED)"
  using charge_parameter_discovery_energy_mode
    [where msg = "\<lparr>header = \<lparr>header_session_id = ''F9F9EE8505F55838'',
                                header_signature = None\<rparr>,
                     body = charge_parameter_discovery_req
                              \<lparr>max_entries_sa_schedule_tuple = None,
                               requested_energy_mode = AC_THREE_PHASE_CORE,
                               ac_ev_charge_parameter = Some \<lparr>departure_time = None\<rparr>,
                               dc_ev_charge_parameter = None\<rparr>\<rparr>"
       and req = "\<lparr>max_entries_sa_schedule_tuple = None,
                    requested_energy_mode = AC_THREE_PHASE_CORE,
                    ac_ev_charge_parameter = Some \<lparr>departure_time = None\<rparr>,
                    dc_ev_charge_parameter = None\<rparr>"
       and m = example_machine and sec = example_security and e = True]
    charge_parameter_discovery_energy_mode
    [where msg = "\<lparr>header = \<lparr>header_session_id = ''F9F9EE8505F55838'',
                                header_signature = None\<rparr>,
                     body = charge_parameter_discovery_req
                              \<lparr>max_entries_sa_schedule_tuple = None,
                               requested_energy_mode = DC_EXTENDED,
                               ac_ev_charge_parameter = None,
                               dc_ev_charge_parameter = Some \<lparr>departure_time = None\<rparr>\<rparr>\<rparr>"
       and req = "\<lparr>max_entries_sa_schedule_tuple = None,
                    requested_energy_mode = DC_EXTENDED,
                    ac_ev_charge_parameter = None,
                    dc_ev_charge_parameter = Some \<lparr>departure_time = None\<rparr>\<rparr>"
       and m = "\<lparr>session = example_session\<lparr>selected_energy_mode := None\<rparr>, slot = None\<rparr>"
       and sec = example_security and e = True]
  by (simp add: v2_message_def Let_def example_machine_def example_session_def
      example_evse_controller_def)

subsection \<open>PowerDelivery: start without a charging profile\<close>

text \<open>
  Claim C5, amended: for every \<^verbatim>\<open>PowerDeliveryReq\<close> processed by the state
  \<open>PowerDelivery\<close> whose \<^verbatim>\<open>sa_schedule_tuple_id\<close> is the tuple id of an offered
  schedule, with \<^verbatim>\<open>charge_progress\<close> equal to \<open>START\<close> and no
  \<^verbatim>\<open>charging_profile\<close>, the state machine aborts with the response code
  \<open>FAILED_CHARGING_PROFILE_INVALID\<close>; the next state is \<open>Terminate\<close>, not
  \<open>ChargingStatus\<close>, and neither the selected schedule nor the flag
  \<^verbatim>\<open>charge_progress_started\<close> changes.
\<close>

theorem power_delivery_start_without_profile:
  assumes "body msg = power_delivery_req req"
    and "charge_progress req = START"
    and "charging_profile req = None"
    and "req_sa_schedule_tuple_id req
           \<in> sa_schedule_tuple_id ` set (offered_schedules (session m))"
  shows "let r = process_message sec PowerDelivery e m (V2GMessageV2 msg)
         in aborts_with r T_PowerDeliveryReq FAILED_CHARGING_PROFILE_INVALID
            \<and> next_state_of r \<noteq> Some ChargingStatus
            \<and> selected_schedule (session (machine_of r)) = selected_schedule (session m)
            \<and> charge_progress_started (session (machine_of r))
                 = charge_progress_started (session m)"
proof -
  have "PowerDelivery_own e m (V2GMessageV2 msg) req
      = (None, e,
         stop_state_machine
           ''No charge profile provided although ChargeProgress was set to Start''
           (V2GMessageV2 msg) FAILED_CHARGING_PROFILE_INVALID m)"
    using assms(2-4) by (simp add: PowerDelivery_own_def Let_def)
  with assms(1) have r: "process_message sec PowerDelivery e m (V2GMessageV2 msg)
      = (None, e,
         stop_state_machine
           ''No charge profile provided although ChargeProgress was set to Start''
           (V2GMessageV2 msg) FAILED_CHARGING_PROFILE_INVALID m)"
    by (simp add: PowerDelivery_req)
  have "aborts_with (process_message sec PowerDelivery e m (V2GMessageV2 msg))
          T_PowerDeliveryReq FAILED_CHARGING_PROFILE_INVALID"
    unfolding r using assms(1) by (simp add: aborts_with_stop)
  moreover have "next_state_of (process_message sec PowerDelivery e m (V2GMessageV2 msg))
                   = Some Terminate"
    unfolding r
    by (simp add: next_state_of_def machine_of_def stop_state_machine_def
        create_next_message_def)
  moreover have "session (machine_of (process_message sec PowerDelivery e m (V2GMessageV2 msg)))
      = (session m)\<lparr>stop_reason := Some (StopNotification False
           ''No charge profile provided although ChargeProgress was set to Start''
           (peername (session m)))\<rparr>"
    unfolding r by (simp add: machine_of_def stop_keeps_session)
  ultimately show ?thesis
    by (simp add: Let_def)
qed

text \<open>
  The theorem on the concrete session, in which tuple id 1 is offered.
\<close>

theorem power_delivery_start_without_profile_witness:
  "let r = process_message example_security PowerDelivery True example_machine
             (v2_message ''F9F9EE8505F55838''
                (power_delivery_req \<lparr>charge_progress = START, req_sa_schedule_tuple_id = 1,
                                     charging_profile = None\<rparr>))
   in aborts_with r T_PowerDeliveryReq FAILED_CHARGING_PROFILE_INVALID
      \<and> next_state_of r = Some Terminate
      \<and> \<not> charge_progress_started (session (machine_of r))"
  using power_delivery_start_without_profile
    [where msg = "\<lparr>header = \<lparr>header_session_id = ''F9F9EE8505F55838'',
                                header_signature = None\<rparr>,
                     body = power_delivery_req \<lparr>charge_progress = START,
                              req_sa_schedule_tuple_id = 1, charging_profile = None\<rparr>\<rparr>"
       and req = "\<lparr>charge_progress = START, req_sa_schedule_tuple_id = 1,
                    charging_profile = None\<rparr>"
       and m = example_machine and sec = example_security and e = True]
  by (simp add: v2_message_def Let_def example_machine_def example_session_def aborts_with_def)

text \<open>
  Claim C5 as stated fails: the tuple id is checked first. A request with
  \<open>START\<close>, no charging profile and the tuple id 2, which the concrete session did not
  offer, is answered with \<open>FAILED_TARIFF_SELECTION_INVALID\<close>.
\<close>

theorem power_delivery_start_without_profile_unoffered_id:
  "let r = process_message example_security PowerDelivery True example_machine
             (v2_message ''F9F9EE8505F55838''
                (power_delivery_req \<lparr>charge_progress = START, req_sa_schedule_tuple_id = 2,
                                     charging_profile = None\<rparr>))
   in emitted r = Some (FailedResponse (Some T_PowerDeliveryReq) FAILED_TARIFF_SELECTION_INVALID)
      \<and> emitted_code r \<noteq> Some FAILED_CHARGING_PROFILE_INVALID"
proof -
  have "process_message example_security PowerDelivery True example_machine
          (v2_message ''F9F9EE8505F55838''
             (power_delivery_req \<lparr>charge_progress = START, req_sa_schedule_tuple_id = 2,
                                  charging_profile = None\<rparr>))
        = PowerDelivery_own True example_machine
            (v2_message ''F9F9EE8505F55838''
               (power_delivery_req \<lparr>charge_progress = START, req_sa_schedule_tuple_id = 2,
                                    charging_profile = None\<rparr>))
            \<lparr>charge_progress = START, req_sa_schedule_tuple_id = 2, charging_profile = None\<rparr>"
    unfolding v2_message_def by (rule PowerDelivery_req) simp
  then show ?thesis
    by (simp add: PowerDelivery_own_def Let_def example_machine_def example_session_def
        v2_message_def emitted_code_def emitted_def machine_of_def stop_state_machine_def
        create_next_message_def)
qed

subsection \<open>PowerDelivery: the schedule tuple id\<close>

text \<open>
  Claim C6: for every \<^verbatim>\<open>PowerDeliveryReq\<close> processed by the state \<open>PowerDelivery\<close>
  whose \<^verbatim>\<open>sa_schedule_tuple_id\<close> equals the tuple id of no schedule in the session's
  \<^verbatim>\<open>offered_schedules\<close>, the state machine aborts with the response code
  \<open>FAILED_TARIFF_SELECTION_INVALID\<close>.
\<close>

theorem power_delivery_unoffered_tuple_id:
  assumes "body msg = power_delivery_req req"
    and "\<forall>schedule \<in> set (offered_schedules (session m)).
           sa_schedule_tuple_id schedule \<noteq> req_sa_schedule_tuple_id req"
  shows "aborts_with (process_message sec PowerDelivery e m (V2GMessageV2 msg))
           T_PowerDeliveryReq FAILED_TARIFF_SELECTION_INVALID"
proof -
  from assms(2) have "req_sa_schedule_tuple_id req
      \<notin> set (map sa_schedule_tuple_id (offered_schedules (session m)))"
    by auto
  then have "PowerDelivery_own e m (V2GMessageV2 msg) req
      = (None, e, stop_state_machine ''does not match any offered tariff IDs''
                    (V2GMessageV2 msg) FAILED_TARIFF_SELECTION_INVALID m)"
    by (simp add: PowerDelivery_own_def Let_def)
  with assms(1) show ?thesis
    by (simp add: PowerDelivery_req aborts_with_stop)
qed

text \<open>
  The theorem on the concrete session: tuple id 1 is offered, the request names tuple
  id 2.
\<close>

theorem power_delivery_unoffered_tuple_id_witness:
  "map sa_schedule_tuple_id (offered_schedules (session example_machine)) = [1]
   \<and> aborts_with
        (process_message example_security PowerDelivery True example_machine
           (v2_message ''F9F9EE8505F55838''
              (power_delivery_req \<lparr>charge_progress = STOP, req_sa_schedule_tuple_id = 2,
                                   charging_profile = None\<rparr>)))
        T_PowerDeliveryReq FAILED_TARIFF_SELECTION_INVALID"
  using power_delivery_unoffered_tuple_id
    [where msg = "\<lparr>header = \<lparr>header_session_id = ''F9F9EE8505F55838'',
                                header_signature = None\<rparr>,
                     body = power_delivery_req \<lparr>charge_progress = STOP,
                              req_sa_schedule_tuple_id = 2, charging_profile = None\<rparr>\<rparr>"
       and req = "\<lparr>charge_progress = STOP, req_sa_schedule_tuple_id = 2,
                    charging_profile = None\<rparr>"
       and m = example_machine and sec = example_security and e = True]
  by (simp add: v2_message_def example_machine_def example_session_def)

subsection \<open>MeteringReceipt: the echoed meter reading\<close>

text \<open>
  As long as both the reading the SECC sent and the reading the request echoes are
  different from zero, the state compares them: with a contract certificate chain and a
  signature that verifies, equal readings are answered with \<open>OK\<close> and different
  readings abort with \<open>FAILED_METERING_SIGNATURE_NOT_VALID\<close>.
\<close>

lemma metering_receipt_nonzero_readings:
  assumes "body msg = metering_receipt_req req"
    and "contract_cert_chain (session m) = Some chain"
    and "verify_signature sec (header_signature (header msg))
           [(Some (metering_id req), to_exi sec (Exi_MeteringReceiptReq req))]
           (certificate chain) None"
    and "sent_meter_info (session m) = Some sent"
    and "meter_reading sent = Some a" and "a \<noteq> 0"
    and "meter_reading (meter_info req) = Some b" and "b \<noteq> 0"
  shows "if a = b
         then raised (process_message sec MeteringReceipt e m (V2GMessageV2 msg)) = None
              \<and> emitted_code (process_message sec MeteringReceipt e m (V2GMessageV2 msg))
                   = Some OK
         else aborts_with (process_message sec MeteringReceipt e m (V2GMessageV2 msg))
                T_MeteringReceiptReq FAILED_METERING_SIGNATURE_NOT_VALID"
proof -
  have r: "process_message sec MeteringReceipt e m (V2GMessageV2 msg)
             = MeteringReceipt_own sec e m (V2GMessageV2 msg) msg req"
    using assms(1) by (rule MeteringReceipt_req)
  show ?thesis
  proof (cases "a = b")
    case True
    with assms(2-8) show ?thesis
      unfolding r
      by (simp add: MeteringReceipt_own_def Let_def raised_def emitted_code_def emitted_def
          machine_of_def create_next_message_def)
  next
    case False
    with assms(2-8) have "MeteringReceipt_own sec e m (V2GMessageV2 msg) msg req
        = (None, e,
           stop_state_machine
             (''EVCC's meter info is not a copy of the SECC's meter info ''
              @ ''sent in CharginStatusRes/CurrentDemandRes'')
             (V2GMessageV2 msg) FAILED_METERING_SIGNATURE_NOT_VALID m)"
      by (simp add: MeteringReceipt_own_def Let_def)
    with False assms(1) show ?thesis
      unfolding r by (simp add: aborts_with_stop)
  qed
qed

text \<open>
  Claim C7 says that a \<^verbatim>\<open>MeteringReceiptReq\<close> with a verifiable signature is answered
  with \<open>OK\<close> when its meter reading equals the reading last sent, and aborts with
  \<open>FAILED_METERING_SIGNATURE_NOT_VALID\<close> when the two differ. The code tests the
  readings for truth before it compares them, and the reading 0 is false in Python. In
  the concrete session, with a contract certificate chain and the meter reading 0 sent
  last, a request that echoes the reading 0 aborts with
  \<open>FAILED_METERING_SIGNATURE_NOT_VALID\<close> although the readings are equal, and a
  request that carries the reading 5 is answered with \<open>OK\<close> although they differ.
\<close>

theorem metering_receipt_zero_reading:
  "let m = \<lparr>session = example_session
                \<lparr>sent_meter_info := Some \<lparr>meter_id = ''EVSE-Meter'', meter_reading = Some 0\<rparr>,
                 contract_cert_chain :=
                   Some \<lparr>chain_id = None, certificate = [], sub_certificates = None\<rparr>\<rparr>,
            slot = None\<rparr>;
       echo = (\<lambda>reading. v2_message ''F9F9EE8505F55838''
                 (metering_receipt_req
                    \<lparr>metering_id = ''id1'',
                     meter_info = \<lparr>meter_id = ''EVSE-Meter'',
                                   meter_reading = Some reading\<rparr>\<rparr>))
   in aborts_with (process_message example_security MeteringReceipt True m (echo 0))
        T_MeteringReceiptReq FAILED_METERING_SIGNATURE_NOT_VALID
      \<and> raised (process_message example_security MeteringReceipt True m (echo 5)) = None
      \<and> emitted_code (process_message example_security MeteringReceipt True m (echo 5))
           = Some OK"
proof -
  have own: "\<And>m reading.
    process_message example_security MeteringReceipt True m
      (v2_message ''F9F9EE8505F55838''
         (metering_receipt_req
            \<lparr>metering_id = ''id1'',
             meter_info = \<lparr>meter_id = ''EVSE-Meter'', meter_reading = Some reading\<rparr>\<rparr>))
    = MeteringReceipt_own example_security True m
        (v2_message ''F9F9EE8505F55838''
           (metering_receipt_req
              \<lparr>metering_id = ''id1'',
               meter_info = \<lparr>meter_id = ''EVSE-Meter'', meter_reading = Some reading\<rparr>\<rparr>))
        \<lparr>header = \<lparr>header_session_id = ''F9F9EE8505F55838'', header_signature = None\<rparr>,
         body = metering_receipt_req
                  \<lparr>metering_id = ''id1'',
                   meter_info = \<lparr>meter_id = ''EVSE-Meter'',
                                 meter_reading = Some reading\<rparr>\<rparr>\<rparr>
        \<lparr>metering_id = ''id1'',
         meter_info = \<lparr>meter_id = ''EVSE-Meter'', meter_reading = Some reading\<rparr>\<rparr>"
    unfolding v2_message_def by (rule MeteringReceipt_req) simp
  show ?thesis
    unfolding Let_def own
    by (simp add: MeteringReceipt_own_def Let_def example_session_def example_security_def
        startswith_def v2_message_def aborts_with_def raised_def stopped_abnormally_def
        next_state_of_def emitted_code_def emitted_def machine_of_def stop_state_machine_def
        create_next_message_def)
qed

subsection \<open>PaymentServiceSelection: the three checks\<close>

text \<open>
  The loop over the selected services stops at a service that is neither the charge
  service nor an offered one, if there is one; otherwise its flag tells whether the
  charge service is among the selected services.
\<close>

lemma check_selected_services_Inl_D:
  "check_selected_services offered services flag = Inl i \<Longrightarrow>
   \<exists>s \<in> set services. selected_service_id s \<noteq> ServiceID_CHARGING
                         \<and> selected_service_id s \<notin> set offered"
  by (induction services arbitrary: flag) (auto split: if_splits)

lemma check_selected_services_Inr_D:
  "check_selected_services offered services flag = Inr b \<Longrightarrow>
   (\<forall>s \<in> set services. selected_service_id s = ServiceID_CHARGING
                         \<or> selected_service_id s \<in> set offered)
   \<and> b = (flag \<or> (\<exists>s \<in> set services. selected_service_id s = ServiceID_CHARGING))"
  by (induction services arbitrary: flag) (auto split: if_splits)

lemma check_selected_services_Inl:
  assumes "\<exists>i \<in> set (map selected_service_id services).
             i \<noteq> ServiceID_CHARGING \<and> i \<notin> set offered"
  shows "\<exists>i. check_selected_services offered services flag = Inl i"
proof (cases "check_selected_services offered services flag")
  case (Inl i)
  then show ?thesis by blast
next
  case (Inr b)
  from check_selected_services_Inr_D [OF this] assms show ?thesis by auto
qed

lemma check_selected_services_Inr:
  assumes "\<not> (\<exists>i \<in> set (map selected_service_id services).
                i \<noteq> ServiceID_CHARGING \<and> i \<notin> set offered)"
  shows "check_selected_services offered services False
           = Inr (ServiceID_CHARGING \<in> set (map selected_service_id services))"
proof (cases "check_selected_services offered services False")
  case (Inl i)
  from check_selected_services_Inl_D [OF this] assms show ?thesis by auto
next
  case (Inr b)
  from check_selected_services_Inr_D [OF this] have
    "b = (ServiceID_CHARGING \<in> set (map selected_service_id services))"
    by (force simp: image_iff)
  with Inr show ?thesis by simp
qed

text \<open>
  Claim C8, amended: for every \<^verbatim>\<open>PaymentServiceSelectionReq\<close> processed by the state
  \<open>PaymentServiceSelection\<close> the checks run in this order. If a selected service other
  than the charge service is not among the session's \<^verbatim>\<open>offered_services\<close>, the state
  machine aborts with \<open>FAILED_SERVICE_SELECTION_INVALID\<close>; otherwise, if the charge
  service is not among the selected services, it aborts with
  \<open>FAILED_NO_CHARGE_SERVICE_SELECTED\<close>; otherwise, if the selected auth option is not
  among the session's \<^verbatim>\<open>offered_auth_options\<close>, it aborts with
  \<open>FAILED_PAYMENT_SELECTION_INVALID\<close>; otherwise nothing is raised, the response is
  \<^verbatim>\<open>PaymentServiceSelectionRes\<close> with the code \<open>OK\<close>, the session's
  \<^verbatim>\<open>selected_auth_option\<close> is the selected option and the session is not stopped
  by this call.
\<close>

theorem payment_service_selection_checks:
  assumes "body msg = payment_service_selection_req req"
  shows "let r = process_message sec PaymentServiceSelection e m (V2GMessageV2 msg);
             selected = map selected_service_id (selected_service_list req);
             offered = map service_id (offered_services (session m));
             auth = req_selected_auth_option req
         in if \<exists>i \<in> set selected. i \<noteq> ServiceID_CHARGING \<and> i \<notin> set offered
            then aborts_with r T_PaymentServiceSelectionReq FAILED_SERVICE_SELECTION_INVALID
            else if ServiceID_CHARGING \<notin> set selected
            then aborts_with r T_PaymentServiceSelectionReq FAILED_NO_CHARGE_SERVICE_SELECTED
            else if auth \<notin> set (offered_auth_options (session m))
            then aborts_with r T_PaymentServiceSelectionReq FAILED_PAYMENT_SELECTION_INVALID
            else raised r = None
                 \<and> emitted r = Some (PaymentServiceSelectionRes OK)
                 \<and> selected_auth_option (session (machine_of r)) = Some auth
                 \<and> stop_reason (session (machine_of r)) = stop_reason (session m)"
proof -
  let ?selected = "map selected_service_id (selected_service_list req)"
  let ?offered = "map service_id (offered_services (session m))"
  have r: "process_message sec PaymentServiceSelection e m (V2GMessageV2 msg)
             = PaymentServiceSelection_own e m (V2GMessageV2 msg) req"
    using assms by (rule PaymentServiceSelection_req)
  show ?thesis
  proof (cases "\<exists>i \<in> set ?selected. i \<noteq> ServiceID_CHARGING \<and> i \<notin> set ?offered")
    case True
    then obtain i where
      "check_selected_services ?offered (selected_service_list req) False = Inl i"
      using check_selected_services_Inl by blast
    then have "PaymentServiceSelection_own e m (V2GMessageV2 msg) req
        = (None, e, stop_state_machine ''Selected service was not offered''
                      (V2GMessageV2 msg) FAILED_SERVICE_SELECTION_INVALID m)"
      by (simp add: PaymentServiceSelection_own_def Let_def)
    with True assms show ?thesis
      unfolding r Let_def by (simp add: aborts_with_stop)
  next
    case False
    then have c: "check_selected_services ?offered (selected_service_list req) False
                    = Inr (ServiceID_CHARGING \<in> set ?selected)"
      by (rule check_selected_services_Inr)
    show ?thesis
    proof (cases "ServiceID_CHARGING \<in> set ?selected")
      case no_charge: False
      with c have "PaymentServiceSelection_own e m (V2GMessageV2 msg) req
          = (None, e, stop_state_machine ''Charge service not selected''
                        (V2GMessageV2 msg) FAILED_NO_CHARGE_SERVICE_SELECTED m)"
        by (simp add: PaymentServiceSelection_own_def Let_def)
      with False no_charge assms show ?thesis
        unfolding r Let_def by (simp add: aborts_with_stop)
    next
      case charge: True
      show ?thesis
      proof (cases "req_selected_auth_option req \<in> set (offered_auth_options (session m))")
        case no_auth: False
        with c charge have "PaymentServiceSelection_own e m (V2GMessageV2 msg) req
            = (None, e, stop_state_machine ''Selected authorization method was not offered''
                          (V2GMessageV2 msg) FAILED_PAYMENT_SELECTION_INVALID m)"
          by (simp add: PaymentServiceSelection_own_def Let_def)
        with False charge no_auth assms show ?thesis
          unfolding r Let_def by (simp add: aborts_with_stop)
      next
        case auth: True
        with c charge have "PaymentServiceSelection_own e m (V2GMessageV2 msg) req
            = (None, False,
               create_next_message None (PaymentServiceSelectionRes OK)
                 V2G_SECC_SEQUENCE_TIMEOUT ISO_V2_MSG_DEF None
                 (m\<lparr>session := (session m)\<lparr>selected_auth_option :=
                       Some (req_selected_auth_option req)\<rparr>\<rparr>))"
          by (simp add: PaymentServiceSelection_own_def Let_def)
        then have "raised (PaymentServiceSelection_own e m (V2GMessageV2 msg) req) = None
            \<and> emitted (PaymentServiceSelection_own e m (V2GMessageV2 msg) req)
                = Some (PaymentServiceSelectionRes OK)
            \<and> selected_auth_option
                 (session (machine_of (PaymentServiceSelection_own e m (V2GMessageV2 msg) req)))
                = Some (req_selected_auth_option req)
            \<and> stop_reason
                 (session (machine_of (PaymentServiceSelection_own e m (V2GMessageV2 msg) req)))
                = stop_reason (session m)"
          by (simp add: raised_def emitted_def machine_of_def create_next_message_def)
        then show ?thesis
          unfolding r Let_def
          by (simp only: False charge auth not_True_eq_False if_False)
      qed
    qed
  qed
qed

text \<open>
  The theorem on the concrete session, which offers no value-added service and both
  auth options: selecting the charge service with \<open>EIM_V2\<close> is accepted.
\<close>

theorem payment_service_selection_checks_witness:
  "let r = process_message example_security PaymentServiceSelection True example_machine
             (v2_message ''F9F9EE8505F55838''
                (payment_service_selection_req
                   \<lparr>req_selected_auth_option = EIM_V2,
                    selected_service_list =
                      [\<lparr>selected_service_id = 1, selected_parameter_set_id = None\<rparr>]\<rparr>))
   in emitted r = Some (PaymentServiceSelectionRes OK)
      \<and> selected_auth_option (session (machine_of r)) = Some EIM_V2"
  using payment_service_selection_checks
    [where msg = "\<lparr>header = \<lparr>header_session_id = ''F9F9EE8505F55838'',
                                header_signature = None\<rparr>,
                     body = payment_service_selection_req
                              \<lparr>req_selected_auth_option = EIM_V2,
                               selected_service_list =
                                 [\<lparr>selected_service_id = 1,
                                   selected_parameter_set_id = None\<rparr>]\<rparr>\<rparr>"
       and req = "\<lparr>req_selected_auth_option = EIM_V2,
                    selected_service_list =
                      [\<lparr>selected_service_id = 1, selected_parameter_set_id = None\<rparr>]\<rparr>"
       and m = example_machine and sec = example_security and e = True]
  by (simp add: v2_message_def Let_def example_machine_def example_session_def
      ServiceID_CHARGING_def)

text \<open>
  Claim C8 as stated fails: the check for a service that was not offered comes before
  the check for the charge service. In the concrete session, which offers no
  value-added service, a request that selects only the service 2 does not select the
  charge service, yet the state machine aborts with \<open>FAILED_SERVICE_SELECTION_INVALID\<close>,
  not with \<open>FAILED_NO_CHARGE_SERVICE_SELECTED\<close>.
\<close>

theorem payment_service_selection_unoffered_first:
  "let req = \<lparr>req_selected_auth_option = EIM_V2,
              selected_service_list =
                [\<lparr>selected_service_id = 2, selected_parameter_set_id = None\<rparr>]\<rparr>;
       r = process_message example_security PaymentServiceSelection True example_machine
             (v2_message ''F9F9EE8505F55838'' (payment_service_selection_req req))
   in ServiceID_CHARGING \<notin> set (map selected_service_id (selected_service_list req))
      \<and> emitted r = Some (FailedResponse (Some T_PaymentServiceSelectionReq)
                            FAILED_SERVICE_SELECTION_INVALID)
      \<and> emitted_code r \<noteq> Some FAILED_NO_CHARGE_SERVICE_SELECTED"
proof -
  have "process_message example_security PaymentServiceSelection True example_machine
          (v2_message ''F9F9EE8505F55838''
             (payment_service_selection_req
                \<lparr>req_selected_auth_option = EIM_V2,
                 selected_service_list =
                   [\<lparr>selected_service_id = 2, selected_parameter_set_id = None\<rparr>]\<rparr>))
        = PaymentServiceSelection_own True example_machine
            (v2_message ''F9F9EE8505F55838''
               (payment_service_selection_req
                  \<lparr>req_selected_auth_option = EIM_V2,
                   selected_service_list =
                     [\<lparr>selected_service_id = 2, selected_parameter_set_id = None\<rparr>]\<rparr>))
            \<lparr>req_selected_auth_option = EIM_V2,
             selected_service_list =
               [\<lparr>selected_service_id = 2, selected_parameter_set_id = None\<rparr>]\<rparr>"
    unfolding v2_message_def by (rule PaymentServiceSelection_req) simp
  then show ?thesis
    by (simp add: PaymentServiceSelection_own_def Let_def example_machine_def
        example_session_def ServiceID_CHARGING_def v2_message_def emitted_code_def emitted_def
        machine_of_def stop_state_machine_def create_next_message_def)
qed

subsection \<open>PowerDelivery: renegotiation\<close>

text \<open>
  Claim C9, amended: for every \<^verbatim>\<open>PowerDeliveryReq\<close> with \<^verbatim>\<open>charge_progress\<close>
  equal to \<open>RENEGOTIATE\<close> processed by the state \<open>PowerDelivery\<close> whose
  \<^verbatim>\<open>sa_schedule_tuple_id\<close> is the tuple id of an offered schedule, nothing is raised;
  if the session's flag \<^verbatim>\<open>charge_progress_started\<close> is true, the response code is
  \<open>OK\<close>, the next state is \<open>ChargeParameterDiscovery\<close> and the session is as it was;
  if the flag is false, the session is stopped abnormally and the next state is
  \<open>Terminate\<close>.
\<close>

theorem power_delivery_renegotiate:
  assumes "body msg = power_delivery_req req"
    and "charge_progress req = RENEGOTIATE"
    and "req_sa_schedule_tuple_id req
           \<in> sa_schedule_tuple_id ` set (offered_schedules (session m))"
  shows "let r = process_message sec PowerDelivery e m (V2GMessageV2 msg)
         in raised r = None \<and>
            (if charge_progress_started (session m)
             then emitted_code r = Some OK
                  \<and> next_state_of r = Some ChargeParameterDiscovery
                  \<and> session (machine_of r) = session m
             else stopped_abnormally r \<and> next_state_of r = Some Terminate)"
proof -
  have r: "process_message sec PowerDelivery e m (V2GMessageV2 msg)
             = PowerDelivery_own e m (V2GMessageV2 msg) req"
    using assms(1) by (rule PowerDelivery_req)
  show ?thesis
    unfolding r using assms(2,3)
    by (simp add: PowerDelivery_own_def Let_def raised_def emitted_code_def emitted_def
        next_state_of_def machine_of_def stopped_abnormally_def stop_state_machine_def
        create_next_message_def)
qed

text \<open>
  The theorem on the concrete session, in which tuple id 1 is offered, once with the
  flag \<^verbatim>\<open>charge_progress_started\<close> true and once with the flag false.
\<close>

theorem power_delivery_renegotiate_witness:
  "(let m = \<lparr>session = example_session\<lparr>charge_progress_started := True\<rparr>, slot = None\<rparr>;
        r = process_message example_security PowerDelivery True m
              (v2_message ''F9F9EE8505F55838''
                 (power_delivery_req \<lparr>charge_progress = RENEGOTIATE,
                    req_sa_schedule_tuple_id = 1, charging_profile = None\<rparr>))
    in emitted_code r = Some OK \<and> next_state_of r = Some ChargeParameterDiscovery)
   \<and> (let r = process_message example_security PowerDelivery True example_machine
                 (v2_message ''F9F9EE8505F55838''
                    (power_delivery_req \<lparr>charge_progress = RENEGOTIATE,
                       req_sa_schedule_tuple_id = 1, charging_profile = None\<rparr>))
       in stopped_abnormally r \<and> next_state_of r = Some Terminate)"
  using power_delivery_renegotiate
    [where msg = "\<lparr>header = \<lparr>header_session_id = ''F9F9EE8505F55838'',
                                header_signature = None\<rparr>,
                     body = power_delivery_req \<lparr>charge_progress = RENEGOTIATE,
                              req_sa_schedule_tuple_id = 1, charging_profile = None\<rparr>\<rparr>"
       and req = "\<lparr>charge_progress = RENEGOTIATE, req_sa_schedule_tuple_id = 1,
                    charging_profile = None\<rparr>"
       and m = "\<lparr>session = example_session\<lparr>charge_progress_started := True\<rparr>,
                  slot = None\<rparr>"
       and sec = example_security and e = True]
    power_delivery_renegotiate
    [where msg = "\<lparr>header = \<lparr>header_session_id = ''F9F9EE8505F55838'',
                                header_signature = None\<rparr>,
                     body = power_delivery_req \<lparr>charge_progress = RENEGOTIATE,
                              req_sa_schedule_tuple_id = 1, charging_profile = None\<rparr>\<rparr>"
       and req = "\<lparr>charge_progress = RENEGOTIATE, req_sa_schedule_tuple_id = 1,
                    charging_profile = None\<rparr>"
       and m = example_machine and sec = example_security and e = True]
  by (simp add: v2_message_def Let_def example_machine_def example_session_def)

text \<open>
  Claim C9 as stated fails: the tuple id is checked before the charge progress. In the
  concrete session with the flag \<^verbatim>\<open>charge_progress_started\<close> true, a renegotiation
  request with the tuple id 2, which was not offered, does not lead to
  \<open>ChargeParameterDiscovery\<close>: the state machine aborts with
  \<open>FAILED_TARIFF_SELECTION_INVALID\<close>.
\<close>

theorem power_delivery_renegotiate_unoffered_id:
  "let m = \<lparr>session = example_session\<lparr>charge_progress_started := True\<rparr>, slot = None\<rparr>;
       r = process_message example_security PowerDelivery True m
             (v2_message ''F9F9EE8505F55838''
                (power_delivery_req \<lparr>charge_progress = RENEGOTIATE,
                   req_sa_schedule_tuple_id = 2, charging_profile = None\<rparr>))
   in charge_progress_started (session m)
      \<and> next_state_of r = Some Terminate
      \<and> next_state_of r \<noteq> Some ChargeParameterDiscovery
      \<and> emitted r
           = Some (FailedResponse (Some T_PowerDeliveryReq) FAILED_TARIFF_SELECTION_INVALID)"
proof -
  have "process_message example_security PowerDelivery True
          \<lparr>session = example_session\<lparr>charge_progress_started := True\<rparr>, slot = None\<rparr>
          (v2_message ''F9F9EE8505F55838''
             (power_delivery_req \<lparr>charge_progress = RENEGOTIATE,
                req_sa_schedule_tuple_id = 2, charging_profile = None\<rparr>))
        = PowerDelivery_own True
            \<lparr>session = example_session\<lparr>charge_progress_started := True\<rparr>, slot = None\<rparr>
            (v2_message ''F9F9EE8505F55838''
               (power_delivery_req \<lparr>charge_progress = RENEGOTIATE,
                  req_sa_schedule_tuple_id = 2, charging_profile = None\<rparr>))
            \<lparr>charge_progress = RENEGOTIATE, req_sa_schedule_tuple_id = 2,
             charging_profile = None\<rparr>"
    unfolding v2_message_def by (rule PowerDelivery_req) simp
  then show ?thesis
    by (simp add: PowerDelivery_own_def Let_def example_session_def
        v2_message_def emitted_def next_state_of_def machine_of_def stop_state_machine_def
        create_next_message_def)
qed

text \<open>
  In the branch for a renegotiation before the charge progress has started, the source
  calls \<^verbatim>\<open>stop_state_machine\<close> with \<open>FAILED\<close> and then goes on to the end of the
  method, where \<^verbatim>\<open>create_next_message\<close> replaces the failed response in the output
  slot by a \<^verbatim>\<open>PowerDeliveryRes\<close> with the response code \<open>OK\<close>.
\<close>

lemma power_delivery_renegotiate_before_start_reply:
  assumes "body msg = power_delivery_req req"
    and "charge_progress req = RENEGOTIATE"
    and "req_sa_schedule_tuple_id req
           \<in> sa_schedule_tuple_id ` set (offered_schedules (session m))"
    and "\<not> charge_progress_started (session m)"
  shows "emitted (process_message sec PowerDelivery e m (V2GMessageV2 msg))
           = Some (PowerDeliveryRes OK (get_ac_evse_status (evse_controller (session m))))"
proof -
  have r: "process_message sec PowerDelivery e m (V2GMessageV2 msg)
             = PowerDelivery_own e m (V2GMessageV2 msg) req"
    using assms(1) by (rule PowerDelivery_req)
  show ?thesis
    unfolding r using assms(2-4)
    by (simp add: PowerDelivery_own_def Let_def emitted_def machine_of_def
        stop_state_machine_def create_next_message_def)
qed

subsection \<open>ServiceDiscovery: the list of value-added services\<close>

lemma get_services_offered:
  "offered_services (session (snd (get_services category_filter m))) =
     (if is_tls (session m) \<and> allow_cert_install_service (config (session m))
         \<and> (category_filter = None \<or> category_filter = Some ServiceCategory_CERTIFICATE)
      then [\<lparr>service_id = 2, service_name = Some ServiceName_CERTIFICATE,
             service_category = ServiceCategory_CERTIFICATE,
             free_service = free_cert_install_service (config (session m))\<rparr>]
      else [])"
  by (simp add: get_services_def Let_def)

lemma get_services_service_list:
  "res_service_list (fst (get_services category_filter m)) =
     (if offered_services (session (snd (get_services category_filter m))) = [] then None
      else Some (offered_services (session (snd (get_services category_filter m)))))"
  by (simp add: get_services_def Let_def)

lemma get_services_code: "response_code (fst (get_services category_filter m)) = OK"
  by (simp add: get_services_def Let_def)

lemma ServiceDiscovery_own_fst:
  "emitted (ServiceDiscovery_own e m req) = Some (fst (get_services (req_service_category req) m))"
  by (simp add: ServiceDiscovery_own_def emitted_def machine_of_def create_next_message_def
      split_beta Let_def)

lemma ServiceDiscovery_own_snd:
  "session (machine_of (ServiceDiscovery_own e m req))
     = session (snd (get_services (req_service_category req) m))"
  by (simp add: ServiceDiscovery_own_def machine_of_def create_next_message_def
      split_beta Let_def)

text \<open>
  Claim C10: for every \<^verbatim>\<open>ServiceDiscoveryReq\<close> processed by the state
  \<open>ServiceDiscovery\<close>, the \<^verbatim>\<open>service_list\<close> of the \<^verbatim>\<open>ServiceDiscoveryRes\<close> is
  \<^verbatim>\<open>None\<close> when no value-added service is offered and the list of the offered
  services otherwise, never an empty list; a value-added service is offered exactly
  when the session uses TLS, the certificate installation service is allowed and the
  category filter of the request is absent or \<open>CERTIFICATE\<close>.
\<close>

theorem service_discovery_service_list:
  assumes "body msg = service_discovery_req req"
  shows "let r = process_message sec ServiceDiscovery e m (V2GMessageV2 msg);
             offered = offered_services (session (machine_of r))
         in emitted_code r = Some OK
            \<and> map_option res_service_list (emitted r)
                = Some (if offered = [] then None else Some offered)
            \<and> (offered \<noteq> [] \<longleftrightarrow>
                 is_tls (session m) \<and> allow_cert_install_service (config (session m))
                 \<and> (req_service_category req = None
                      \<or> req_service_category req = Some ServiceCategory_CERTIFICATE))"
proof -
  have r: "process_message sec ServiceDiscovery e m (V2GMessageV2 msg)
             = ServiceDiscovery_own e m req"
    using assms by (rule ServiceDiscovery_req)
  show ?thesis
    unfolding r Let_def emitted_code_def ServiceDiscovery_own_fst ServiceDiscovery_own_snd
    by (simp add: get_services_service_list get_services_code get_services_offered)
qed

text \<open>
  The theorem on the concrete session, with a request that filters for the Internet
  service: nothing is offered and the element is absent.
\<close>

theorem service_discovery_service_list_witness:
  "let r = process_message example_security ServiceDiscovery True example_machine
             (v2_message ''F9F9EE8505F55838''
                (service_discovery_req \<lparr>service_scope = None,
                    req_service_category = Some ServiceCategory_INTERNET\<rparr>))
   in map_option res_service_list (emitted r) = Some None
      \<and> offered_services (session (machine_of r)) = []"
  using service_discovery_service_list
    [where msg = "\<lparr>header = \<lparr>header_session_id = ''F9F9EE8505F55838'',
                                header_signature = None\<rparr>,
                     body = service_discovery_req \<lparr>service_scope = None,
                              req_service_category = Some ServiceCategory_INTERNET\<rparr>\<rparr>"
       and req = "\<lparr>service_scope = None,
                    req_service_category = Some ServiceCategory_INTERNET\<rparr>"
       and m = example_machine and sec = example_security and e = True]
  by (simp add: v2_message_def Let_def split: if_splits)

section \<open>Properties of the registry of failed responses\<close>

text \<open>The rules that evaluate a closed expression.\<close>

lemmas registry_evaluate =
  module_globals_def builtins_def lookup_def evaluate.simps evaluate_list.simps
  evaluate_items.simps get_attr.simps call.simps keyword_arg.simps response_code_of.simps
  map_of.simps fun_upd_apply sum.case option.case prod.case list.case list.map fst_conv
  snd_conv list.pred_inject set_simps insert_iff empty_iff list.inject list.distinct
  char.inject py_value.inject py_value.distinct option.inject simp_thms if_True if_False

text \<open>
  The module binds \<^verbatim>\<open>SessionSetupReqV2\<close> and \<^verbatim>\<open>SessionSetupResV2\<close>. It binds the
  response codes of DIN SPEC 70121 as \<^verbatim>\<open>ResponseCodeDINSPEC\<close> and those of
  ISO 15118-20 as \<^verbatim>\<open>ResponseCodeV20\<close>, but no import binds \<^verbatim>\<open>ResponseCodeV2\<close>.
\<close>

lemma ResponseCodeV2_unbound:
  "lookup [] ''ResponseCodeV2'' = Inl (NameError ''ResponseCodeV2'')"
  by (simp only: registry_evaluate)

lemma SessionSetupReqV2_bound:
  "lookup [] ''SessionSetupReqV2'' = Inr (VGlobal ''SessionSetupReqV2'')"
  by (simp only: registry_evaluate)

lemma SessionSetupResV2_bound:
  "lookup [] ''SessionSetupResV2'' = Inr (VGlobal ''SessionSetupResV2'')"
  by (simp only: registry_evaluate)

text \<open>
  Claim C3 says that for each of the three registries the construction succeeds and maps
  every key to a response with the response code \<open>FAILED\<close>, the values of the
  ISO 15118-20 registry being triples. For the ISO 15118-2 registry the code does not get
  that far: \<^verbatim>\<open>init_failed_responses_iso_v2()\<close> raises \<^verbatim>\<open>NameError\<close> for
  \<^verbatim>\<open>ResponseCodeV2\<close> while it evaluates the value of the first item of its dict
  literal, and returns no registry.
\<close>

theorem init_failed_responses_iso_v2_raises:
  "init_failed_responses_iso_v2 = Inl (NameError ''ResponseCodeV2'')"
  by (simp add: init_failed_responses_iso_v2_def init_failed_responses_iso_v2_items_def
      ResponseCodeV2_unbound SessionSetupReqV2_bound SessionSetupResV2_bound)

text \<open>
  The other two functions find every name they use. In the embedding, where a class
  accepts the arguments it is given, \<^verbatim>\<open>init_failed_responses_din_spec_70121()\<close>
  returns a dict with eleven keys, each mapped to a response built with the response code
  \<^verbatim>\<open>ResponseCodeDINSPEC.FAILED\<close>, and \<^verbatim>\<open>init_failed_responses_iso_v20()\<close> returns a
  dict with fourteen keys, each mapped to a triple of a response built with the response
  code \<^verbatim>\<open>ResponseCodeV20.FAILED\<close>, a namespace and a payload type.
\<close>

lemma init_failed_responses_din_spec_70121_ok:
  "case init_failed_responses_din_spec_70121 of
     Inl _ \<Rightarrow> False
   | Inr d \<Rightarrow>
       map fst d =
         [VGlobal ''SessionSetupReqDINSPEC'', VGlobal ''ServiceDiscoveryReqDINSPEC'',
          VGlobal ''ServicePaymentSelectionReqDINSPEC'',
          VGlobal ''ContractAuthenticationReqDINSPEC'',
          VGlobal ''ChargeParameterDiscoveryReqDINSPEC'',
          VGlobal ''CableCheckReqDINSPEC'', VGlobal ''PreChargeReqDINSPEC'',
          VGlobal ''PowerDeliveryReqDINSPEC'', VGlobal ''CurrentDemandReqDINPEC'',
          VGlobal ''WeldingDetectionReqDINSPEC'', VGlobal ''SessionStopReqDINSPEC'']
       \<and> list_all (\<lambda>(k, v). response_code_of v
                      = Some (VMember (VGlobal ''ResponseCodeDINSPEC'') ''FAILED'')) d"
  by (simp only: init_failed_responses_din_spec_70121_def
      init_failed_responses_din_spec_70121_items_def registry_evaluate)

lemma init_failed_responses_iso_v20_ok:
  "case init_failed_responses_iso_v20 of
     Inl _ \<Rightarrow> False
   | Inr d \<Rightarrow>
       map fst d =
         [VGlobal ''SessionSetupReqV20'', VGlobal ''AuthorizationReqV20'',
          VGlobal ''AuthorizationSetupReq'', VGlobal ''CertificateInstallationReqV20'',
          VGlobal ''ServiceDiscoveryReqV20'', VGlobal ''ServiceDetailReqV20'',
          VGlobal ''ServiceSelectionReq'', VGlobal ''ACChargeParameterDiscoveryReq'',
          VGlobal ''DCChargeParameterDiscoveryReq'', VGlobal ''ScheduleExchangeReq'',
          VGlobal ''PowerDeliveryReqV20'', VGlobal ''ACChargeLoopReq'',
          VGlobal ''MeteringConfirmationReq'', VGlobal ''SessionStopReqV20'']
       \<and> list_all (\<lambda>(k, v). is_failed_triple v) d"
  by (simp only: init_failed_responses_iso_v20_def init_failed_responses_iso_v20_header_def
      init_failed_responses_iso_v20_items_def registry_evaluate is_failed_triple.simps
      py_bytes_def py_hex.simps py_upper_def)

end
